theory Spec2Isabelle
  imports Complex_Main "HOL-Library.Multiset"
begin

section \<open>JavaScript values and strings\<close>

text \<open>
  Strings are byte lists: ASCII text is written as a literal, every other character of
  the source (bullets, emoji) is spelled as its UTF-8 bytes. A number that arrives in JSON
  or in an argument is an integer (\<open>int\<close>, negative ones included); where the code
  adds to such a number or prints it, the integer is taken to be a safe one (below
  \<open>2^53\<close> in absolute value), on which the arithmetic of doubles is exact and a template
  string prints the plain decimal. Lengths of arrays and HTTP status codes are natural
  numbers.
\<close>

datatype js_value =
    Undefined
  | Null
  | Boolean bool
  | Number int
  | String string
  | Object

datatype js_type = T_undefined | T_object | T_boolean | T_number | T_string

fun typeof :: "js_value \<Rightarrow> js_type" where
  "typeof Undefined = T_undefined"
| "typeof Null = T_object"
| "typeof (Boolean b) = T_boolean"
| "typeof (Number n) = T_number"
| "typeof (String s) = T_string"
| "typeof Object = T_object"

fun truthy :: "js_value \<Rightarrow> bool" where
  "truthy Undefined = False"
| "truthy Null = False"
| "truthy (Boolean b) = b"
| "truthy (Number n) = (n \<noteq> 0)"
| "truthy (String s) = (s \<noteq> [])"
| "truthy Object = True"

text \<open>An optional string field is truthy when it is present and not empty.\<close>

fun truthy_str :: "string option \<Rightarrow> bool" where
  "truthy_str None = False"
| "truthy_str (Some s) = (s \<noteq> [])"

text \<open>\<open>a || b\<close> on optional strings.\<close>

definition or_else :: "string option \<Rightarrow> string option \<Rightarrow> string option" where
  "or_else a b = (if truthy_str a then a else b)"

definition nl :: string where
  "nl = [CHR 0x0A]"

definition dq :: string where
  "dq = [CHR 0x22]"

text \<open>The code unit of a character, and back.\<close>

definition char_code :: "char \<Rightarrow> nat" where
  "char_code c = of_char c"

definition digit_char :: "nat \<Rightarrow> char" where
  "digit_char d = ''0123456789'' ! d"

text \<open>Decimal rendering of a number inside a template string.\<close>

fun show_nat :: "nat \<Rightarrow> string" where
  "show_nat n = (if n < 10 then [digit_char n] else show_nat (n div 10) @ [digit_char (n mod 10)])"

declare show_nat.simps [simp del]

definition show_int :: "int \<Rightarrow> string" where
  "show_int n = (if n < 0 then ''-'' @ show_nat (nat (- n)) else show_nat (nat n))"

definition safe_integer :: "int \<Rightarrow> bool" where
  "safe_integer n = (\<bar>n\<bar> < 2 ^ 53)"

definition is_upper :: "char \<Rightarrow> bool" where
  "is_upper c = (65 \<le> char_code c \<and> char_code c \<le> 90)"

definition is_lower :: "char \<Rightarrow> bool" where
  "is_lower c = (97 \<le> char_code c \<and> char_code c \<le> 122)"

definition is_digit :: "char \<Rightarrow> bool" where
  "is_digit c = (48 \<le> char_code c \<and> char_code c \<le> 57)"

text \<open>\<open>String.prototype.toLowerCase\<close> and \<open>toUpperCase\<close> on ASCII letters.\<close>

definition lower_char :: "char \<Rightarrow> char" where
  "lower_char c = (if is_upper c then char_of (char_code c + 32) else c)"

definition upper_char :: "char \<Rightarrow> char" where
  "upper_char c = (if is_lower c then char_of (char_code c - 32) else c)"

definition toLowerCase :: "string \<Rightarrow> string" where
  "toLowerCase s = map lower_char s"

definition toUpperCase :: "string \<Rightarrow> string" where
  "toUpperCase s = map upper_char s"

fun starts_with :: "string \<Rightarrow> string \<Rightarrow> bool" where
  "starts_with s [] = True"
| "starts_with [] (p # ps) = False"
| "starts_with (c # cs) (p # ps) = (c = p \<and> starts_with cs ps)"

text \<open>\<open>String.prototype.includes\<close>.\<close>

fun str_includes :: "string \<Rightarrow> string \<Rightarrow> bool" where
  "str_includes [] sub = (sub = [])"
| "str_includes (c # cs) sub = (starts_with (c # cs) sub \<or> str_includes cs sub)"

text \<open>\<open>Array.prototype.join\<close>.\<close>

fun join :: "string \<Rightarrow> string list \<Rightarrow> string" where
  "join sep [] = []"
| "join sep [x] = x"
| "join sep (x # y # ys) = x @ sep @ join sep (y # ys)"

section \<open>Accession patterns\<close>

text \<open>
  The six patterns of \<open>isValidAccessionNumber\<close> are anchored sequences of quantified
  atoms under the \<open>i\<close> flag. An atom matches a character when the canonical form of
  the character is the canonical form of one of the atom's members; without the \<open>u\<close>
  flag the canonical form is the upper-case one and only ASCII letters change.
\<close>

datatype atom =
    Lit char
  | Digit
  | WordChar
  | OneOf string
  | Range char char

datatype quant = Once | Exactly nat | OneOrMore

type_synonym regex = "(atom \<times> quant) list"

definition canonicalize :: "char \<Rightarrow> char" where
  "canonicalize c = upper_char c"

definition char_range :: "char \<Rightarrow> char \<Rightarrow> string" where
  "char_range a b = map char_of [char_code a ..< Suc (char_code b)]"

fun members :: "atom \<Rightarrow> string" where
  "members (Lit x) = [x]"
| "members Digit = char_range (CHR ''0'') (CHR ''9'')"
| "members WordChar =
     char_range (CHR ''A'') (CHR ''Z'') @ char_range (CHR ''a'') (CHR ''z'')
       @ char_range (CHR ''0'') (CHR ''9'') @ ''_''"
| "members (OneOf cs) = cs"
| "members (Range a b) = char_range a b"

definition atom_match :: "atom \<Rightarrow> char \<Rightarrow> bool" where
  "atom_match a c = (canonicalize c \<in> set (map canonicalize (members a)))"

text \<open>
  \<open>test p s\<close>: the whole of \<open>s\<close> matches \<open>^p$\<close>. A quantified atom may end after any
  number of characters it is allowed to take, so the search finds a match whenever the
  backtracking matcher does.
\<close>

fun test :: "regex \<Rightarrow> string \<Rightarrow> bool" where
  "test [] s = (s = [])"
| "test ((a, Once) # r) [] = False"
| "test ((a, Once) # r) (c # cs) = (atom_match a c \<and> test r cs)"
| "test ((a, Exactly 0) # r) s = test r s"
| "test ((a, Exactly (Suc n)) # r) [] = False"
| "test ((a, Exactly (Suc n)) # r) (c # cs) = (atom_match a c \<and> test ((a, Exactly n) # r) cs)"
| "test ((a, OneOrMore) # r) [] = False"
| "test ((a, OneOrMore) # r) (c # cs) =
     (atom_match a c \<and> (test ((a, OneOrMore) # r) cs \<or> test r cs))"

definition lits :: "string \<Rightarrow> regex" where
  "lits s = map (\<lambda>c. (Lit c, Once)) s"

definition patterns :: "regex list" where
  "patterns =
    [ lits ''S-BSST'' @ [(Digit, OneOrMore)],
      lits ''E-'' @ [(WordChar, Exactly 4)] @ lits ''-'' @ [(Digit, OneOrMore)],
      lits ''EMPIAR-'' @ [(Digit, OneOrMore)],
      lits ''S-BIAD'' @ [(Digit, OneOrMore)],
      lits ''S-BSMS'' @ [(Digit, OneOrMore)],
      lits ''PRJ'' @ [(OneOf ''EDN'', Once), (Range (CHR ''A'') (CHR ''Z''), Once), (Digit, OneOrMore)] ]"

definition isValidAccessionNumber :: "js_value \<Rightarrow> bool" where
  "isValidAccessionNumber accno =
     (if \<not> truthy accno \<or> typeof accno \<noteq> T_string then False
      else (case accno of String s \<Rightarrow> list_ex (\<lambda>pattern. test pattern s) patterns | _ \<Rightarrow> False))"

text \<open>\<open>formatAccessionNumber\<close>: upper case, the falsy (empty) string unchanged.\<close>

definition formatAccessionNumber :: "string \<Rightarrow> string" where
  "formatAccessionNumber accno = (if accno = [] then accno else toUpperCase accno)"

text \<open>
  The accession families in the words of the specification: a case-insensitive spelling
  of the family's prefix, followed by the family's variable part.
\<close>

definition is_word :: "char \<Rightarrow> bool" where
  "is_word c = (is_upper c \<or> is_lower c \<or> is_digit c \<or> c = CHR ''_'')"

definition ci_eq :: "string \<Rightarrow> string \<Rightarrow> bool" where
  "ci_eq a b = (toUpperCase a = toUpperCase b)"

definition digits1 :: "string \<Rightarrow> bool" where
  "digits1 ds = (ds \<noteq> [] \<and> list_all is_digit ds)"

definition accession_shape :: "string \<Rightarrow> bool" where
  "accession_shape s =
    ((\<exists>p ds. s = p @ ds \<and> ci_eq p ''S-BSST'' \<and> digits1 ds) \<or>
     (\<exists>p w ds. s = p @ w @ ''-'' @ ds \<and> ci_eq p ''E-'' \<and> length w = 4 \<and> list_all is_word w \<and> digits1 ds) \<or>
     (\<exists>p ds. s = p @ ds \<and> ci_eq p ''EMPIAR-'' \<and> digits1 ds) \<or>
     (\<exists>p ds. s = p @ ds \<and> ci_eq p ''S-BIAD'' \<and> digits1 ds) \<or>
     (\<exists>p ds. s = p @ ds \<and> ci_eq p ''S-BSMS'' \<and> digits1 ds) \<or>
     (\<exists>p x y ds. s = p @ [x, y] @ ds \<and> ci_eq p ''PRJ'' \<and> upper_char x \<in> set ''EDN''
        \<and> (is_upper y \<or> is_lower y) \<and> digits1 ds))"

section \<open>Data model\<close>

text \<open>
  The interfaces of \<open>types/biostudies.ts\<close>, with the fields the modelled functions
  read. An optional field is an \<open>option\<close>.
\<close>

record Attribute =
  attr_name :: string
  attr_value :: string

record Link =
  link_url :: string
  link_attributes :: "Attribute list option"

record FileInfo =
  file_name :: string
  file_path :: string
  file_size :: "int option"
  file_type :: "string option"
  file_md5 :: "string option"

datatype Section =
  Section (sec_type: "string option") (sec_attributes: "Attribute list option")
    (sec_links: "Link list option") (sec_files: "FileInfo list option")
    (sec_subsections: "Section list option")

record StudyDetails =
  sd_accno :: string
  sd_title :: string
  sd_collection :: "string option"
  sd_section :: "Section option"
  sd_isPublic :: "bool option"

record StudySearchResult =
  hit_accno :: string
  hit_title :: string
  hit_authors :: "string list option"
  hit_releaseDate :: "string option"
  hit_collection :: "string option"
  hit_type :: "string option"
  hit_views :: "int option"
  hit_downloads :: "int option"

record SearchParams =
  sp_query :: "string option"
  sp_collection :: "string option"
  sp_type :: "string option"
  sp_author :: "string option"
  sp_keywords :: "string list option"
  sp_page :: "int option"
  sp_size :: "int option"
  sp_sortBy :: "string option"
  sp_sortOrder :: "string option"
  sp_releaseDateFrom :: "string option"
  sp_releaseDateTo :: "string option"

record SearchResponse =
  hits :: "StudySearchResult list"
  totalHits :: int
  page :: int
  size_ :: int

record AuthToken =
  token :: string
  expires :: "string option"
  user :: "string option"

record AuthCredentials =
  login :: string
  password :: string

record StudyValidation =
  sv_accno :: string
  isValid :: bool
  exists :: bool
  sv_isPublic :: "bool option"
  sv_collection :: "string option"
  sv_title :: "string option"

record Failure =
  f_accno :: string
  f_error :: string

record BulkOperationResult =
  successful :: "string list"
  failed :: "Failure list"
  total :: nat
  successCount :: nat
  failureCount :: nat

text \<open>
  A value that came from the network where the type \<open>T\<close> was expected: an object of
  that shape, some other truthy JSON value (of which only the \<open>message\<close> and
  \<open>error\<close> fields are ever read), a falsy JSON value (\<open>null\<close>, \<open>false\<close>,
  \<open>0\<close>, the empty string), or the raw text of a body that is not JSON.
\<close>

datatype 'a body_value =
    Shaped 'a
  | Foreign (message: "string option") (error_field: "string option")
  | Falsy
  | RawText string

fun truthy_value :: "'a body_value \<Rightarrow> bool" where
  "truthy_value (Shaped v) = True"
| "truthy_value (Foreign m e) = True"
| "truthy_value Falsy = False"
| "truthy_value (RawText s) = (s \<noteq> [])"

fun message_of :: "'a body_value \<Rightarrow> string option" where
  "message_of (Foreign m e) = m"
| "message_of v = None"

fun error_of :: "'a body_value \<Rightarrow> string option" where
  "error_of (Foreign m e) = e"
| "error_of v = None"

text \<open>\<open>ApiResponse<T>\<close>; \<open>None\<close> is an absent field.\<close>

record 'a ApiResponse =
  data :: "'a body_value option"
  error :: "string option"
  status :: nat

text \<open>\<open>!!result.data\<close>, and the object behind \<open>result.data\<close> whose fields are read.\<close>

fun truthy_data :: "'a body_value option \<Rightarrow> bool" where
  "truthy_data None = False"
| "truthy_data (Some v) = truthy_value v"

fun shaped :: "'a body_value option \<Rightarrow> 'a option" where
  "shaped (Some (Shaped v)) = Some v"
| "shaped d = None"

section \<open>The network\<close>

text \<open>
  What \<open>fetch\<close> does is the environment's choice. A request is the URL before the
  query string, the entries of the query string in the order they were appended, the
  method, the \<open>Authorization\<close> header and the body; the three fixed headers are left
  out. The server answers a request knowing all requests sent before it, so the same
  request may be answered differently at different times.
\<close>

record request =
  url :: string
  query :: "(string \<times> string) list"
  method_name :: string
  authorization :: "string option"
  body :: "AuthCredentials option"

text \<open>A thrown value: an \<open>Error\<close> with its name and message, or something else.\<close>

datatype thrown = Error string string | NotAnError

record 'a response =
  http_status :: nat
  statusText :: string
  content_type :: "string option"
  json :: "thrown + 'a body_value"
  text_body :: "thrown + string"

datatype 'a fetch_result = Responded "'a response" | Threw thrown

type_synonym trace = "request list"

type_synonym 'a server = "trace \<Rightarrow> request \<Rightarrow> 'a fetch_result"

definition ok :: "'a response \<Rightarrow> bool" where
  "ok r = (200 \<le> http_status r \<and> http_status r \<le> 299)"

section \<open>The API client\<close>

record client =
  baseUrl :: string
  authToken :: "string option"
  defaultTimeout :: nat

definition new_client :: client where
  "new_client = \<lparr> baseUrl = ''https://www.ebi.ac.uk/biostudies/api/v1'', authToken = None,
     defaultTimeout = 30000 \<rparr>"

text \<open>The \<open>catch\<close> block of \<open>makeRequest\<close>.\<close>

fun request_failed :: "thrown \<Rightarrow> 'a ApiResponse" where
  "request_failed (Error name msg) =
     (if name = ''AbortError'' then \<lparr> data = None, error = Some ''Request timeout'', status = 408 \<rparr>
      else \<lparr> data = None, error = Some msg, status = 0 \<rparr>)"
| "request_failed NotAnError = \<lparr> data = None, error = Some ''Unknown error occurred'', status = 0 \<rparr>"

text \<open>The part of \<open>makeRequest\<close> after the response has arrived and its body was read.\<close>

definition finish :: "'a response \<Rightarrow> 'a body_value option \<Rightarrow> 'a ApiResponse" where
  "finish r d =
     (if \<not> ok r then
        (let errorMessage =
           (if truthy_data d then
              or_else (or_else (message_of (the d)) (error_of (the d)))
                (Some (''HTTP '' @ show_nat (http_status r)))
            else Some (''HTTP '' @ show_nat (http_status r) @ '': '' @ statusText r))
         in \<lparr> data = None, error = errorMessage, status = http_status r \<rparr>)
      else \<lparr> data = d, error = None, status = http_status r \<rparr>)"

definition settle :: "'a fetch_result \<Rightarrow> 'a ApiResponse" where
  "settle outcome =
     (case outcome of
        Threw e \<Rightarrow> request_failed e
      | Responded r \<Rightarrow>
          (let contentType = (if truthy_str (content_type r) then the (content_type r) else [])
           in if str_includes contentType ''application/json'' then
                (case json r of Inl e \<Rightarrow> request_failed e | Inr jsonData \<Rightarrow> finish r (Some jsonData))
              else if ok r then
                (case text_body r of Inl e \<Rightarrow> request_failed e | Inr textData \<Rightarrow> finish r (Some (RawText textData)))
              else finish r None))"

definition makeRequest ::
  "'a server \<Rightarrow> client \<Rightarrow> trace \<Rightarrow> string \<Rightarrow> (string \<times> string) list \<Rightarrow> string \<Rightarrow>
     AuthCredentials option \<Rightarrow> 'a ApiResponse \<times> trace" where
  "makeRequest server this sent endpoint params method credentials =
     (let req = \<lparr> url = baseUrl this @ endpoint, query = params, method_name = method,
            authorization =
              (if truthy_str (authToken this) then Some (''Bearer '' @ the (authToken this)) else None),
            body = credentials \<rparr>
      in (settle (server sent req), sent @ [req]))"

text \<open>
  One server per payload type: the answers to study, file-list, link-list, search and
  login requests. All of them see the same trace of requests.
\<close>

record network =
  study_server :: "StudyDetails server"
  files_server :: "FileInfo list server"
  links_server :: "Link list server"
  search_server :: "SearchResponse server"
  auth_server :: "AuthToken server"

text \<open>\<open>result.data?.token\<close>\<close>

definition token_of :: "AuthToken body_value option \<Rightarrow> string option" where
  "token_of d = (case shaped d of Some t \<Rightarrow> Some (token t) | None \<Rightarrow> None)"

definition authenticate ::
  "network \<Rightarrow> client \<Rightarrow> trace \<Rightarrow> AuthCredentials \<Rightarrow> AuthToken ApiResponse \<times> client \<times> trace" where
  "authenticate net this sent credentials =
     (let (result, sent') = makeRequest (auth_server net) this sent ''/auth/login'' [] ''POST'' (Some credentials);
          this' = (if truthy_str (token_of (data result))
                   then this\<lparr>authToken := token_of (data result)\<rparr> else this)
      in (result, this', sent'))"

definition clearAuthentication :: "client \<Rightarrow> client" where
  "clearAuthentication this = this\<lparr>authToken := None\<rparr>"

definition setAuthToken :: "client \<Rightarrow> string \<Rightarrow> client" where
  "setAuthToken this t = this\<lparr>authToken := Some t\<rparr>"

definition isAuthenticated :: "client \<Rightarrow> bool" where
  "isAuthenticated this = truthy_str (authToken this)"

text \<open>\<open>if (v) searchParams.append(key, v)\<close>\<close>

definition append_truthy :: "string \<Rightarrow> string option \<Rightarrow> (string \<times> string) list" where
  "append_truthy key v = (if truthy_str v then [(key, the v)] else [])"

definition append_defined :: "string \<Rightarrow> int option \<Rightarrow> (string \<times> string) list" where
  "append_defined key v = (case v of Some n \<Rightarrow> [(key, show_int n)] | None \<Rightarrow> [])"

definition search_entries :: "SearchParams \<Rightarrow> (string \<times> string) list" where
  "search_entries params =
     append_truthy ''query'' (sp_query params) @
     append_truthy ''collection'' (sp_collection params) @
     append_truthy ''type'' (sp_type params) @
     append_truthy ''author'' (sp_author params) @
     (case sp_keywords params of Some ks \<Rightarrow> map (\<lambda>keyword. (''keywords'', keyword)) ks | None \<Rightarrow> []) @
     append_defined ''page'' (sp_page params) @
     append_defined ''size'' (sp_size params) @
     append_truthy ''sortBy'' (sp_sortBy params) @
     append_truthy ''sortOrder'' (sp_sortOrder params) @
     append_truthy ''releaseDateFrom'' (sp_releaseDateFrom params) @
     append_truthy ''releaseDateTo'' (sp_releaseDateTo params)"

definition searchStudies ::
  "network \<Rightarrow> client \<Rightarrow> trace \<Rightarrow> SearchParams \<Rightarrow> SearchResponse ApiResponse \<times> trace" where
  "searchStudies net this sent params =
     makeRequest (search_server net) this sent ''/studies'' (search_entries params) ''GET'' None"

definition invalid_format :: "string \<Rightarrow> 'a ApiResponse" where
  "invalid_format accno =
     \<lparr> data = None, error = Some (''Invalid accession number format: '' @ accno), status = 400 \<rparr>"

definition getStudyDetails ::
  "network \<Rightarrow> client \<Rightarrow> trace \<Rightarrow> string \<Rightarrow> StudyDetails ApiResponse \<times> trace" where
  "getStudyDetails net this sent accno =
     (if \<not> isValidAccessionNumber (String accno) then (invalid_format accno, sent)
      else makeRequest (study_server net) this sent (''/studies/'' @ accno) [] ''GET'' None)"

definition no_params :: SearchParams where
  "no_params = \<lparr> sp_query = None, sp_collection = None, sp_type = None, sp_author = None,
     sp_keywords = None, sp_page = None, sp_size = None, sp_sortBy = None, sp_sortOrder = None,
     sp_releaseDateFrom = None, sp_releaseDateTo = None \<rparr>"

definition getCollectionStudies ::
  "network \<Rightarrow> client \<Rightarrow> trace \<Rightarrow> string \<Rightarrow> int \<Rightarrow> int \<Rightarrow> SearchResponse ApiResponse \<times> trace" where
  "getCollectionStudies net this sent collectionKey pg sz =
     searchStudies net this sent
       (no_params\<lparr> sp_collection := Some collectionKey, sp_page := Some pg, sp_size := Some sz \<rparr>)"

definition getStudyFiles ::
  "network \<Rightarrow> client \<Rightarrow> trace \<Rightarrow> string \<Rightarrow> FileInfo list ApiResponse \<times> trace" where
  "getStudyFiles net this sent accno =
     (if \<not> isValidAccessionNumber (String accno) then (invalid_format accno, sent)
      else makeRequest (files_server net) this sent (''/studies/'' @ accno @ ''/files'') [] ''GET'' None)"

definition getStudyLinks ::
  "network \<Rightarrow> client \<Rightarrow> trace \<Rightarrow> string \<Rightarrow> Link list ApiResponse \<times> trace" where
  "getStudyLinks net this sent accno =
     (if \<not> isValidAccessionNumber (String accno) then (invalid_format accno, sent)
      else makeRequest (links_server net) this sent (''/studies/'' @ accno @ ''/links'') [] ''GET'' None)"


subsection \<open>Batch retrieval\<close>

text \<open>
  How a promise settled: fulfilled with a value, or rejected with an \<open>Error\<close> of the
  given message.
\<close>

datatype 'a settled = Fulfilled 'a | Rejected string

text \<open>
  The body of one of the mapped tasks after its \<open>getStudyDetails\<close> call has returned.
\<close>

definition task_outcome :: "string \<Rightarrow> StudyDetails ApiResponse \<Rightarrow> string settled" where
  "task_outcome accno result =
     (if truthy_str (error result) then Rejected (the (error result)) else Fulfilled accno)"

text \<open>
  \<open>accessions.map(async ...)\<close> starts the tasks in input order, and each task sends its
  request before the next one starts.
\<close>

fun start_tasks :: "network \<Rightarrow> client \<Rightarrow> trace \<Rightarrow> string list \<Rightarrow> string settled list \<times> trace" where
  "start_tasks net this sent [] = ([], sent)"
| "start_tasks net this sent (accno # rest) =
     (let (result, sent1) = getStudyDetails net this sent accno;
          (outcomes, sent2) = start_tasks net this sent1 rest
      in (task_outcome accno result # outcomes, sent2))"

text \<open>
  \<open>Promise.allSettled\<close>: the tasks settle in any order, \<open>completion\<close> lists their
  indices in the order they settle, and each outcome is stored at the index of its task.
  The combined promise resolves once every slot is filled; \<open>None\<close> says it never does.
\<close>

definition allSettled :: "nat list \<Rightarrow> 'a list \<Rightarrow> 'a list option" where
  "allSettled completion outcomes =
     (let slots = foldl (\<lambda>results i. results[i := Some (outcomes ! i)])
                    (replicate (length outcomes) None) completion
      in if list_all (\<lambda>slot. slot \<noteq> None) slots then Some (map the slots) else None)"

text \<open>The \<open>results.forEach\<close> loop, from the given index on.\<close>

fun forEach_result ::
  "string list \<Rightarrow> nat \<Rightarrow> string settled list \<Rightarrow> string list \<times> Failure list \<Rightarrow>
     string list \<times> Failure list" where
  "forEach_result accessions index [] (successful_list, failed_list) = (successful_list, failed_list)"
| "forEach_result accessions index (result # rest) (successful_list, failed_list) =
     (let accno = accessions ! index
      in forEach_result accessions (Suc index) rest
           (case result of
              Fulfilled v \<Rightarrow> (successful_list @ [accno], failed_list)
            | Rejected msg \<Rightarrow>
                (successful_list,
                 failed_list @ [\<lparr> f_accno = accno,
                   f_error = (if msg \<noteq> [] then msg else ''Unknown error'') \<rparr>])))"

definition batchGetStudies ::
  "network \<Rightarrow> client \<Rightarrow> trace \<Rightarrow> nat list \<Rightarrow> string list \<Rightarrow>
     (BulkOperationResult ApiResponse \<times> trace) option" where
  "batchGetStudies net this sent completion accessions =
     (if length accessions = 0 then
        Some (\<lparr> data = Some (Shaped \<lparr> successful = [], failed = [], total = 0, successCount = 0,
                 failureCount = 0 \<rparr>), error = None, status = 200 \<rparr>, sent)
      else if length accessions > 50 then
        Some (\<lparr> data = None, error = Some ''Maximum 50 accessions can be processed at once'',
                 status = 400 \<rparr>, sent)
      else
        (let (outcomes, sent') = start_tasks net this sent accessions
         in case allSettled completion outcomes of
              None \<Rightarrow> None
            | Some results \<Rightarrow>
                (let (successful_list, failed_list) = forEach_result accessions 0 results ([], [])
                 in Some (\<lparr> data = Some (Shaped \<lparr> successful = successful_list, failed = failed_list,
                            total = length accessions, successCount = length successful_list,
                            failureCount = length failed_list \<rparr>), error = None, status = 200 \<rparr>, sent'))))"

text \<open>
  For stating what a batch reports: the accessions whose task was fulfilled, and the
  failures of those whose task was rejected, both in the order of the input.
\<close>

fun fulfilled :: "'a settled \<Rightarrow> bool" where
  "fulfilled (Fulfilled v) = True"
| "fulfilled (Rejected msg) = False"

fun reason :: "'a settled \<Rightarrow> string" where
  "reason (Rejected msg) = msg"
| "reason (Fulfilled v) = []"

definition fulfilled_of :: "string list \<Rightarrow> string settled list \<Rightarrow> string list" where
  "fulfilled_of accessions outcomes = map fst (filter (\<lambda>p. fulfilled (snd p)) (zip accessions outcomes))"

definition rejected_of :: "string list \<Rightarrow> string settled list \<Rightarrow> Failure list" where
  "rejected_of accessions outcomes =
     map (\<lambda>p. \<lparr> f_accno = fst p, f_error = reason (snd p) \<rparr>)
       (filter (\<lambda>p. \<not> fulfilled (snd p)) (zip accessions outcomes))"

text \<open>The request of a method that takes no options.\<close>

definition get_request :: "client \<Rightarrow> string \<Rightarrow> request" where
  "get_request this endpoint =
     \<lparr> url = baseUrl this @ endpoint, query = [], method_name = ''GET'',
       authorization = (if truthy_str (authToken this) then Some (''Bearer '' @ the (authToken this)) else None),
       body = None \<rparr>"

text \<open>A lookup fails when no response arrives or the response is not a 2xx one.\<close>

fun lookup_failed :: "'a fetch_result \<Rightarrow> bool" where
  "lookup_failed (Threw e) = True"
| "lookup_failed (Responded r) = (\<not> ok r)"

section \<open>The tool handlers\<close>

text \<open>
  A handler returns a payload, or throws an \<open>Error\<close> (\<open>Inl\<close> with its message). The
  content of a payload is always one text block. The arguments are taken to have their
  declared types; an absent argument is \<open>None\<close>.
\<close>

record tool_result =
  content_text :: string
  isError :: bool

type_synonym handler_result = "string + tool_result"

definition reply :: "string \<Rightarrow> handler_result" where
  "reply t = Inr \<lparr> content_text = t, isError = False \<rparr>"

definition error_reply :: "string \<Rightarrow> handler_result" where
  "error_reply t = Inr \<lparr> content_text = t, isError = True \<rparr>"

definition bt :: string where
  "bt = [CHR 0x60]"

definition bullet :: string where
  "bullet = [CHR 0xE2, CHR 0x80, CHR 0xA2]"

definition check_mark :: string where
  "check_mark = [CHR 0xE2, CHR 0x9C, CHR 0x85]"

definition cross_mark :: string where
  "cross_mark = [CHR 0xE2, CHR 0x9D, CHR 0x8C]"

definition magnifier :: string where
  "magnifier = [CHR 0xF0, CHR 0x9F, CHR 0x94, CHR 0x8D]"

definition folder :: string where
  "folder = [CHR 0xF0, CHR 0x9F, CHR 0x93, CHR 0x81]"

definition warning_sign :: string where
  "warning_sign = [CHR 0xE2, CHR 0x9A, CHR 0xA0, CHR 0xEF, CHR 0xB8, CHR 0x8F]"

text \<open>\<open>x || 0\<close> and the truthiness of an optional number.\<close>

definition or_zero :: "int option \<Rightarrow> int" where
  "or_zero v = (case v of Some n \<Rightarrow> n | None \<Rightarrow> 0)"

definition truthy_num :: "int option \<Rightarrow> bool" where
  "truthy_num v = (or_zero v \<noteq> 0)"

subsection \<open>Search\<close>

record search_args =
  a_query :: "string option"
  a_collection :: "string option"
  a_type :: "string option"
  a_author :: "string option"
  a_keywords :: "string list option"
  a_page :: "int option"
  a_size :: "int option"
  a_sortBy :: "string option"
  a_sortOrder :: "string option"
  a_releaseDateFrom :: "string option"
  a_releaseDateTo :: "string option"

text \<open>
  What a property lookup on the \<open>suggestions\<close> object literal can yield: one of its
  own arrays, or a member it inherits from \<open>Object.prototype\<close> (a function, of which
  only the \<open>length\<close> matters here, or through \<open>__proto__\<close> the prototype object
  itself).
\<close>

datatype js_member = StringArray "string list" | Function nat | PrototypeObject

definition suggestions :: "(string \<times> js_member) list" where
  "suggestions =
    [ (''arrayexpress'',
        StringArray [''E-MTAB-7249'', ''E-MTAB-6819'', ''E-MTAB-5061'', ''E-MTAB-4748'', ''E-MTAB-4421'']),
      (''bioimages'',
        StringArray [''S-BIAD423'', ''S-BIAD424'', ''S-BIAD425'', ''S-BIAD426'', ''S-BIAD427'']),
      (''empiar'',
        StringArray [''EMPIAR-10001'', ''EMPIAR-10002'', ''EMPIAR-10003'', ''EMPIAR-10004'', ''EMPIAR-10005'']),
      (''biostudies'',
        StringArray [''S-BSST1'', ''S-BSST2'', ''S-BSST3'', ''S-BSST4'', ''S-BSST5'']) ]"

definition object_prototype :: "(string \<times> js_member) list" where
  "object_prototype =
    [ (''constructor'', Function 1),
      (''__defineGetter__'', Function 2),
      (''__defineSetter__'', Function 2),
      (''hasOwnProperty'', Function 1),
      (''__lookupGetter__'', Function 1),
      (''__lookupSetter__'', Function 1),
      (''isPrototypeOf'', Function 1),
      (''propertyIsEnumerable'', Function 1),
      (''toString'', Function 0),
      (''valueOf'', Function 0),
      (''__proto__'', PrototypeObject),
      (''toLocaleString'', Function 0) ]"

text \<open>\<open>suggestions[collection] || []\<close>: every member found is truthy.\<close>

definition getCollectionSuggestions :: "string \<Rightarrow> js_member" where
  "getCollectionSuggestions collection =
     (case map_of suggestions collection of
        Some own \<Rightarrow> own
      | None \<Rightarrow>
          (case map_of object_prototype collection of
             Some inherited \<Rightarrow> inherited
           | None \<Rightarrow> StringArray []))"

text \<open>The block of \<open>provideSearchAlternatives\<close> for a collection filter.\<close>

definition collection_block :: "string \<Rightarrow> string + string" where
  "collection_block collection =
     (let heading = ''**Collection-Based Discovery for '' @ dq @ collection @ dq @ '':**'' @ nl;
          generic = ''  '' @ bullet @ '' Use individual study lookup with known '' @ collection
                      @ '' accession patterns'' @ nl
      in case getCollectionSuggestions (toLowerCase collection) of
           StringArray found \<Rightarrow>
             (if length found > 0
              then Inr (heading @ concat (map (\<lambda>suggestion.
                     ''  '' @ bullet @ '' Try accession: '' @ suggestion @ nl) found) @ nl)
              else Inr (heading @ generic @ nl))
         | Function n \<Rightarrow>
             (if n > 0 then Inl ''suggestions.forEach is not a function''
              else Inr (heading @ generic @ nl))
         | PrototypeObject \<Rightarrow> Inr (heading @ generic @ nl))"

definition query_block :: "string \<Rightarrow> string" where
  "query_block q =
     ''**Alternative Search Strategies for '' @ dq @ q @ dq @ '':**'' @ nl @
     ''  '' @ bullet @ '' Use the EBI BioStudies website directly: https://www.ebi.ac.uk/biostudies/'' @ nl @
     ''  '' @ bullet @ '' Try related databases like ArrayExpress: https://www.ebi.ac.uk/arrayexpress/'' @ nl @
     ''  '' @ bullet @ '' Search by publication title or author name on the BioStudies website'' @ nl @ nl"

definition search_header :: string where
  "search_header =
     magnifier @ '' **BioStudies Search Currently Unavailable**'' @ nl @ nl @
     ''The EBI BioStudies search API endpoint is currently not available (HTTP 404). '' @
     ''Here are alternative approaches to find studies:'' @ nl @ nl"

definition search_footer :: string where
  "search_footer =
     ''**Try Common Accession Patterns:**'' @ nl @
     ''  '' @ bullet @ '' **ArrayExpress**: E-MTAB-1234, E-GEOD-1234, E-MEXP-1234'' @ nl @
     ''  '' @ bullet @ '' **BioImages**: S-BIAD1234'' @ nl @
     ''  '' @ bullet @ '' **EMPIAR**: EMPIAR-10001'' @ nl @
     ''  '' @ bullet @ '' **BioStudies**: S-BSST1234'' @ nl @ nl @
     ''**Available Functionality:**'' @ nl @
     ''  '' @ check_mark @ '' Individual study retrieval: Use '' @ bt @ ''get_study_details'' @ bt
        @ '' with known accession numbers'' @ nl @
     ''  '' @ check_mark @ '' Accession validation: Use '' @ bt @ ''validate_study_accession'' @ bt
        @ '' to check format'' @ nl @
     ''  '' @ check_mark @ '' Batch study retrieval: Use '' @ bt @ ''batch_get_studies'' @ bt
        @ '' for multiple studies'' @ nl @ nl @
     ''**Example Usage:**'' @ nl @
     ''Try: get_study_details with accession '' @ dq @ ''E-MTAB-1234'' @ dq
        @ '' or similar known accession numbers''"

definition provideSearchAlternatives :: "SearchParams \<Rightarrow> handler_result" where
  "provideSearchAlternatives searchParams =
     (case (if truthy_str (sp_collection searchParams)
            then collection_block (the (sp_collection searchParams)) else Inr []) of
        Inl thrown_message \<Rightarrow> Inl thrown_message
      | Inr collection_part \<Rightarrow>
          reply (search_header @ collection_part @
                 (if truthy_str (sp_query searchParams) then query_block (the (sp_query searchParams)) else [])
                 @ search_footer))"

text \<open>One hit of a search result.\<close>

definition format_hit :: "StudySearchResult \<Rightarrow> string" where
  "format_hit study =
     bullet @ '' **'' @ hit_accno study @ ''**: '' @ hit_title study @
     (case hit_authors study of
        Some authors \<Rightarrow>
          (if length authors \<noteq> 0
           then nl @ ''  Authors: '' @ join '', '' (take 3 authors)
                  @ (if length authors > 3 then '' et al.'' else [])
           else [])
      | None \<Rightarrow> []) @
     (if truthy_str (hit_collection study) then nl @ ''  Collection: '' @ the (hit_collection study) else []) @
     (if truthy_str (hit_type study) then nl @ ''  Type: '' @ the (hit_type study) else []) @
     (if truthy_str (hit_releaseDate study) then nl @ ''  Released: '' @ the (hit_releaseDate study) else []) @
     (if truthy_num (hit_views study) \<or> truthy_num (hit_downloads study)
      then nl @ ''  Stats: '' @ join '', ''
             ((if truthy_num (hit_views study) then [show_int (or_zero (hit_views study)) @ '' views''] else []) @
              (if truthy_num (hit_downloads study)
               then [show_int (or_zero (hit_downloads study)) @ '' downloads''] else []))
      else [])"

text \<open>The pagination trailer of \<open>searchStudies\<close>.\<close>

definition pagination :: "SearchResponse \<Rightarrow> StudySearchResult list \<Rightarrow> SearchParams \<Rightarrow> string" where
  "pagination response studies searchParams =
     (if page response > 0 \<or>
         int (length studies) \<ge> (if truthy_num (sp_size searchParams) then or_zero (sp_size searchParams) else 20)
      then nl @ nl @ ''Page '' @ show_int (page response + 1) @ '', showing '' @ show_nat (length studies)
             @ '' of '' @ show_int (totalHits response) @ '' total results.''
      else if int (length studies) < totalHits response
      then nl @ nl @ ''Showing first '' @ show_nat (length studies) @ '' of ''
             @ show_int (totalHits response) @ '' total results.''
      else [])"

text \<open>
  The pagination trailer of \<open>getCollectionStudies\<close>, which compares with the page and
  the size it requested itself.
\<close>

definition collection_pagination ::
  "int \<Rightarrow> int \<Rightarrow> StudySearchResult list \<Rightarrow> SearchResponse \<Rightarrow> string \<Rightarrow> string" where
  "collection_pagination pg sz studies response collection =
     (if pg > 0 \<or> int (length studies) \<ge> sz
      then nl @ nl @ ''Page '' @ show_int (pg + 1) @ '', showing '' @ show_nat (length studies)
             @ '' of '' @ show_int (totalHits response) @ '' total studies in '' @ collection @ ''.''
      else if int (length studies) < totalHits response
      then nl @ nl @ ''Showing first '' @ show_nat (length studies) @ '' of ''
             @ show_int (totalHits response) @ '' total studies in '' @ collection @ ''.''
      else [])"

definition search_params_of :: "search_args \<Rightarrow> SearchParams" where
  "search_params_of args =
     \<lparr> sp_query = a_query args, sp_collection = a_collection args, sp_type = a_type args,
       sp_author = a_author args, sp_keywords = a_keywords args,
       sp_page = Some (if truthy_num (a_page args) then or_zero (a_page args) else 0),
       sp_size = Some (if truthy_num (a_size args) then min (or_zero (a_size args)) 100 else 20),
       sp_sortBy = a_sortBy args, sp_sortOrder = a_sortOrder args,
       sp_releaseDateFrom = a_releaseDateFrom args, sp_releaseDateTo = a_releaseDateTo args \<rparr>"

definition render_search :: "SearchResponse \<Rightarrow> SearchParams \<Rightarrow> handler_result" where
  "render_search response searchParams =
     (if length (hits response) = 0 then reply ''No studies found matching the search criteria''
      else (let studies = hits response;
                formattedResults = join (nl @ nl) (map format_hit studies)
            in reply (''Found '' @ show_int (totalHits response) @ '' studies:'' @ nl @ nl
                      @ formattedResults @ pagination response studies searchParams)))"

definition Handlers_searchStudies ::
  "network \<Rightarrow> client \<Rightarrow> trace \<Rightarrow> search_args \<Rightarrow> handler_result \<times> trace" where
  "Handlers_searchStudies net this sent args =
     (if \<not> truthy_str (a_query args) \<and> \<not> truthy_str (a_collection args) \<and> \<not> truthy_str (a_author args)
      then (Inl ''At least one search parameter (query, collection, or author) is required'', sent)
      else
        (let searchParams = search_params_of args;
             (result, sent') = searchStudies net this sent searchParams
         in if truthy_str (error result) \<and> status result = 404
            then (provideSearchAlternatives searchParams, sent')
            else if truthy_str (error result)
            then (error_reply (''Error searching BioStudies: '' @ the (error result)), sent')
            else if \<not> truthy_data (data result)
            then (reply ''No studies found matching the search criteria'', sent')
            else (case shaped (data result) of
                    Some response \<Rightarrow> (render_search response searchParams, sent')
                  | None \<Rightarrow> (Inl ''Cannot read properties of undefined (reading 'length')'', sent'))))"

subsection \<open>File sizes\<close>

text \<open>
  The engine the handlers run on: \<open>log_quotient x\<close> is the double that
  \<open>Math.log(x) / Math.log(1024)\<close> evaluates to, whose rounding is not modelled, and
  \<open>max_arguments\<close> is the largest number of arguments the engine accepts in one call
  (a call that spreads a longer array throws a \<open>RangeError\<close>).
\<close>

record engine =
  log_quotient :: "real \<Rightarrow> real"
  max_arguments :: nat

definition sizes :: "string list" where
  "sizes = [''B'', ''KB'', ''MB'', ''GB'', ''TB'']"

text \<open>
  \<open>parseFloat(x.toFixed(2))\<close> as a template string prints it, for \<open>0 \<le> x < 10^21\<close>:
  \<open>toFixed\<close> rounds the exact value to hundredths, the upper one of two nearest, and the
  number read back prints without trailing zeros.
\<close>

definition fixed2 :: "real \<Rightarrow> string" where
  "fixed2 x =
     (let n = nat \<lfloor>x * 100 + 1 / 2\<rfloor>; whole = n div 100; cents = n mod 100
      in show_nat whole @
         (if cents = 0 then []
          else if cents mod 10 = 0 then ''.'' @ [digit_char (cents div 10)]
          else ''.'' @ [digit_char (cents div 10), digit_char (cents mod 10)]))"

text \<open>
  \<open>formatFileSize\<close>, for a finite number of bytes. The logarithm of a negative number is
  \<open>NaN\<close>, and so is everything computed from it. An index outside the array reads
  \<open>undefined\<close>. Dividing by a power of 1024 is exact in doubles.
\<close>

definition formatFileSize :: "(real \<Rightarrow> real) \<Rightarrow> real \<Rightarrow> string" where
  "formatFileSize log_q bytes =
     (if bytes = 0 then ''0 B''
      else if bytes < 0 then ''NaN undefined''
      else (let i = \<lfloor>log_q bytes\<rfloor>
            in fixed2 (bytes / 1024 powr (of_int i)) @ '' '' @
               (if 0 \<le> i \<and> i < int (length sizes) then sizes ! nat i else ''undefined'')))"

subsection \<open>Study files\<close>

text \<open>\<open>target.push(...items)\<close>; \<open>Inl\<close> is the message of the error thrown.\<close>

definition push_spread :: "engine \<Rightarrow> 'a list \<Rightarrow> 'a list \<Rightarrow> string + 'a list" where
  "push_spread eng target items =
     (if length items > max_arguments eng then Inl ''Maximum call stack size exceeded''
      else Inr (target @ items))"

text \<open>\<open>if (section.files?.length) extractedFiles.push(...section.files)\<close>\<close>

definition push_files :: "engine \<Rightarrow> FileInfo list \<Rightarrow> FileInfo list option \<Rightarrow> string + FileInfo list" where
  "push_files eng extracted fs =
     (case fs of
        Some files \<Rightarrow> (if length files \<noteq> 0 then push_spread eng extracted files else Inr extracted)
      | None \<Rightarrow> Inr extracted)"

text \<open>The \<open>subsections.forEach\<close> loop; an error thrown in it ends the loop.\<close>

fun push_subsections :: "engine \<Rightarrow> FileInfo list \<Rightarrow> Section list \<Rightarrow> string + FileInfo list" where
  "push_subsections eng extracted [] = Inr extracted"
| "push_subsections eng extracted (subsection # rest) =
     (case push_files eng extracted (sec_files subsection) of
        Inl thrown_message \<Rightarrow> Inl thrown_message
      | Inr extracted' \<Rightarrow> push_subsections eng extracted' rest)"

text \<open>The files collected by \<open>extractFilesFromStudyMetadata\<close>.\<close>

definition extractedFiles :: "engine \<Rightarrow> StudyDetails \<Rightarrow> string + FileInfo list" where
  "extractedFiles eng study =
     (case sd_section study of
        None \<Rightarrow> Inr []
      | Some section \<Rightarrow>
          (case push_files eng [] (sec_files section) of
             Inl thrown_message \<Rightarrow> Inl thrown_message
           | Inr extracted \<Rightarrow>
               (case sec_subsections section of
                  None \<Rightarrow> Inr extracted
                | Some subsections \<Rightarrow> push_subsections eng extracted subsections)))"

definition format_size :: "engine \<Rightarrow> int \<Rightarrow> string" where
  "format_size eng n = formatFileSize (log_quotient eng) (of_int n)"

definition format_extracted_file :: "engine \<Rightarrow> FileInfo \<Rightarrow> string" where
  "format_extracted_file eng file =
     bullet @ '' **'' @
       (if file_name file \<noteq> [] then file_name file
        else if file_path file \<noteq> [] then file_path file else ''Unknown filename'') @ ''**'' @
     (if file_path file \<noteq> [] \<and> file_path file \<noteq> file_name file
      then nl @ ''  Path: '' @ file_path file else []) @
     (if truthy_num (file_size file) then nl @ ''  Size: '' @ format_size eng (or_zero (file_size file)) else []) @
     (if truthy_str (file_type file) then nl @ ''  Type: '' @ the (file_type file) else []) @
     (if truthy_str (file_md5 file) then nl @ ''  MD5: '' @ the (file_md5 file) else [])"

definition total_size :: "FileInfo list \<Rightarrow> int" where
  "total_size files = foldl (\<lambda>sum file. sum + or_zero (file_size file)) 0 files"

definition size_info :: "engine \<Rightarrow> FileInfo list \<Rightarrow> string" where
  "size_info eng files =
     (if total_size files > 0 then nl @ ''Total size: '' @ format_size eng (total_size files) else [])"

definition metadata_unavailable :: "string \<Rightarrow> string \<Rightarrow> string" where
  "metadata_unavailable accno err =
     folder @ '' **Files API Unavailable for '' @ accno @ ''**'' @ nl @ nl @
     warning_sign @ '' The dedicated files API endpoint is currently not available (HTTP 404), '' @
     ''and we couldn't retrieve study metadata to extract file information.'' @ nl @ nl @
     ''Error: '' @ err @ nl @ nl @
     ''**Alternative Approaches:**'' @ nl @
     bullet @ '' Visit the study page directly: https://www.ebi.ac.uk/biostudies/studies/'' @ accno @ nl @
     bullet @ '' Use '' @ bt @ ''get_study_details'' @ bt
       @ '' to see if file information is embedded in study metadata''"

definition no_files_in_metadata :: "string \<Rightarrow> string" where
  "no_files_in_metadata accno =
     folder @ '' **Files for '' @ accno @ '' (via metadata extraction)**'' @ nl @ nl @
     warning_sign @ '' **Note**: The dedicated files API endpoint is currently unavailable (HTTP 404). '' @
     ''Extracted file information from study metadata.'' @ nl @ nl @
     ''No files found in the study metadata. This could mean:'' @ nl @
     bullet @ '' The study has no associated files'' @ nl @
     bullet @ '' File information is not embedded in the metadata'' @ nl @
     bullet @ '' Files are referenced externally'' @ nl @ nl @
     ''**Alternative Approaches:**'' @ nl @
     bullet @ '' Check study details with '' @ bt @ ''get_study_details'' @ bt @ '' for external references'' @ nl @
     bullet @ '' Visit the study page directly: https://www.ebi.ac.uk/biostudies/studies/'' @ accno"

definition extracted_listing :: "engine \<Rightarrow> string \<Rightarrow> FileInfo list \<Rightarrow> string" where
  "extracted_listing eng accno files =
     folder @ '' **Files for '' @ accno @ '' (via metadata extraction)**'' @ nl @ nl @
     warning_sign @ '' **Note**: The dedicated files API endpoint is currently unavailable (HTTP 404). '' @
     ''Extracted '' @ show_nat (length files) @ '' files from study metadata.'' @
     size_info eng files @ nl @ nl @
     join (nl @ nl) (map (format_extracted_file eng) files) @ nl @ nl @
     ''**Data Source:** Extracted from study section metadata via '' @ bt @ ''get_study_details'' @ bt"

text \<open>The text of the \<open>catch\<close> block, for the message of the error caught.\<close>

definition extraction_failed :: "string \<Rightarrow> string \<Rightarrow> string" where
  "extraction_failed accno err =
     folder @ '' **Files API Unavailable for '' @ accno @ ''**'' @ nl @ nl @
     warning_sign @ '' The dedicated files API endpoint is currently not available (HTTP 404), '' @
     ''and an error occurred while trying to extract file information from study metadata.'' @ nl @ nl @
     ''Error: '' @ err @ nl @ nl @
     ''**Alternative Approaches:**'' @ nl @
     bullet @ '' Visit the study page directly: https://www.ebi.ac.uk/biostudies/studies/'' @ accno @ nl @
     bullet @ '' Use '' @ bt @ ''get_study_details'' @ bt @ '' to view study metadata directly''"

text \<open>
  \<open>extractFilesFromStudyMetadata\<close>. On values of the declared types the one statement
  of its \<open>try\<close> block that can throw is a \<open>push\<close> that spreads a file list; the
  \<open>catch\<close> block answers with the message of that error. A truthy payload that is not
  a study has no \<open>section\<close>, hence no files.
\<close>

definition extractFilesFromStudyMetadata ::
  "engine \<Rightarrow> network \<Rightarrow> client \<Rightarrow> trace \<Rightarrow> string \<Rightarrow> handler_result \<times> trace" where
  "extractFilesFromStudyMetadata eng net this sent accno =
     (let (studyResult, sent') = getStudyDetails net this sent accno
      in if truthy_str (error studyResult)
         then (reply (metadata_unavailable accno (the (error studyResult))), sent')
         else if \<not> truthy_data (data studyResult)
         then (reply (''Study '' @ accno @ '' not found''), sent')
         else
           (case (case shaped (data studyResult) of Some study \<Rightarrow> extractedFiles eng study | None \<Rightarrow> Inr []) of
              Inl thrown_message \<Rightarrow> (reply (extraction_failed accno thrown_message), sent')
            | Inr files \<Rightarrow>
                (if length files = 0 then (reply (no_files_in_metadata accno), sent')
                 else (reply (extracted_listing eng accno files), sent'))))"

definition format_file :: "engine \<Rightarrow> FileInfo \<Rightarrow> string" where
  "format_file eng file =
     bullet @ '' **'' @ file_name file @ ''**'' @
     (if file_path file \<noteq> [] \<and> file_path file \<noteq> file_name file
      then nl @ ''  Path: '' @ file_path file else []) @
     (if truthy_num (file_size file) then nl @ ''  Size: '' @ format_size eng (or_zero (file_size file)) else []) @
     (if truthy_str (file_type file) then nl @ ''  Type: '' @ the (file_type file) else [])"

definition Handlers_getStudyFiles ::
  "engine \<Rightarrow> network \<Rightarrow> client \<Rightarrow> trace \<Rightarrow> string option \<Rightarrow> handler_result \<times> trace" where
  "Handlers_getStudyFiles eng net this sent arg_accno =
     (if \<not> truthy_str arg_accno
      then (Inl ''Study accession number is required and must be a string'', sent)
      else
        (let accno = the arg_accno;
             (result, sent') = getStudyFiles net this sent accno
         in if truthy_str (error result) \<and> status result = 404
            then extractFilesFromStudyMetadata eng net this sent' accno
            else if truthy_str (error result)
            then (error_reply (''Error retrieving files for study '' @ accno @ '': '' @ the (error result)), sent')
            else if \<not> truthy_data (data result)
            then (reply (''No files found for study '' @ accno), sent')
            else (case shaped (data result) of
                    None \<Rightarrow> (Inl ''files.map is not a function'', sent')
                  | Some files \<Rightarrow>
                      (if length files = 0 then (reply (''No files found for study '' @ accno), sent')
                       else (reply (''Files in study '' @ accno @ '' ('' @ show_nat (length files) @ '' files):''
                               @ size_info eng files @ nl @ nl
                               @ join (nl @ nl) (map (format_file eng) files)), sent')))))"

subsection \<open>Batch retrieval\<close>

definition render_batch :: "BulkOperationResult \<Rightarrow> string" where
  "render_batch batchResult =
     ''**Batch Processing Results:**'' @ nl @ nl @
     ''**Summary:** '' @ show_nat (successCount batchResult) @ ''/'' @ show_nat (total batchResult)
       @ '' studies retrieved successfully'' @ nl @ nl @
     (if length (successful batchResult) > 0
      then ''**Successfully Retrieved ('' @ show_nat (length (successful batchResult)) @ ''):**'' @ nl @
           concat (map (\<lambda>accno. ''  '' @ check_mark @ '' '' @ accno @ nl) (successful batchResult)) @ nl
      else []) @
     (if length (failed batchResult) > 0
      then ''**Failed ('' @ show_nat (length (failed batchResult)) @ ''):**'' @ nl @
           concat (map (\<lambda>failure. ''  '' @ cross_mark @ '' '' @ f_accno failure @ '': '' @ f_error failure @ nl)
                     (failed batchResult))
      else [])"

text \<open>
  The handler of \<open>batch_get_studies\<close>; \<open>None\<close> for the argument is an absent one or
  one that is no array, \<open>None\<close> for the result a call that never returns.
\<close>

definition Handlers_batchGetStudies ::
  "network \<Rightarrow> client \<Rightarrow> trace \<Rightarrow> nat list \<Rightarrow> string list option \<Rightarrow> (handler_result \<times> trace) option" where
  "Handlers_batchGetStudies net this sent completion arg_accessions =
     (case arg_accessions of
        None \<Rightarrow> Some (Inl ''Accessions parameter is required and must be an array of strings'', sent)
      | Some accessions \<Rightarrow>
          (if length accessions = 0 then Some (reply ''No accession numbers provided'', sent)
           else if length accessions > 50 then Some (reply ''Maximum 50 studies can be processed at once'', sent)
           else
             (case batchGetStudies net this sent completion accessions of
                None \<Rightarrow> None
              | Some (result, sent') \<Rightarrow>
                  (if truthy_str (error result)
                   then Some (error_reply (''Error in batch operation: '' @ the (error result)), sent')
                   else (case shaped (data result) of
                           Some batchResult \<Rightarrow> Some (reply (render_batch batchResult), sent')
                         | None \<Rightarrow> Some (Inl ''Cannot read properties of undefined (reading 'successCount')'', sent'))))))"

section \<open>Notions of the specification\<close>

text \<open>The files a section carries itself, and those of a study one level deep.\<close>

definition own_files :: "Section \<Rightarrow> FileInfo list" where
  "own_files section = (case sec_files section of Some files \<Rightarrow> files | None \<Rightarrow> [])"

definition direct_subsections :: "Section \<Rightarrow> Section list" where
  "direct_subsections section = (case sec_subsections section of Some subsections \<Rightarrow> subsections | None \<Rightarrow> [])"

definition one_level_files :: "StudyDetails body_value option \<Rightarrow> FileInfo list" where
  "one_level_files d =
     (case shaped d of
        None \<Rightarrow> []
      | Some study \<Rightarrow>
          (case sd_section study of
             None \<Rightarrow> []
           | Some section \<Rightarrow> own_files section @ concat (map own_files (direct_subsections section))))"

text \<open>The two trailers of a page of search results, and the page size that was asked for.\<close>

definition page_trailer :: "int \<Rightarrow> nat \<Rightarrow> int \<Rightarrow> string" where
  "page_trailer page_index shown total_hits =
     ''Page '' @ show_int (page_index + 1) @ '', showing '' @ show_nat shown @ '' of ''
       @ show_int total_hits @ '' total results.''"

definition first_trailer :: "nat \<Rightarrow> int \<Rightarrow> string" where
  "first_trailer shown total_hits =
     ''Showing first '' @ show_nat shown @ '' of '' @ show_int total_hits @ '' total results.''"

definition requested_size :: "SearchParams \<Rightarrow> int" where
  "requested_size searchParams =
     (if truthy_num (sp_size searchParams) then or_zero (sp_size searchParams) else 20)"

definition no_args :: search_args where
  "no_args = \<lparr> a_query = None, a_collection = None, a_type = None, a_author = None,
     a_keywords = None, a_page = None, a_size = None, a_sortBy = None, a_sortOrder = None,
     a_releaseDateFrom = None, a_releaseDateTo = None \<rparr>"

definition example_hit :: StudySearchResult where
  "example_hit = \<lparr> hit_accno = ''S-BSST1'', hit_title = ''A study'', hit_authors = None,
     hit_releaseDate = None, hit_collection = None, hit_type = None, hit_views = None,
     hit_downloads = None \<rparr>"

text \<open>
  A failure that leaves no message: an \<open>Error\<close> with an empty message, other than an
  abort, thrown by \<open>fetch\<close> or while the body of the response is read.
\<close>

fun empty_message :: "thrown \<Rightarrow> bool" where
  "empty_message (Error name msg) = (name \<noteq> ''AbortError'' \<and> msg = [])"
| "empty_message NotAnError = False"

definition body_read_error :: "'a response \<Rightarrow> thrown option" where
  "body_read_error r =
     (if str_includes (if truthy_str (content_type r) then the (content_type r) else []) ''application/json''
      then (case json r of Inl e \<Rightarrow> Some e | Inr v \<Rightarrow> None)
      else if ok r then (case text_body r of Inl e \<Rightarrow> Some e | Inr t \<Rightarrow> None)
      else None)"

fun failed_silently :: "'a fetch_result \<Rightarrow> bool" where
  "failed_silently (Threw e) = empty_message e"
| "failed_silently (Responded r) = (case body_read_error r of Some e \<Rightarrow> empty_message e | None \<Rightarrow> False)"

section \<open>An example environment\<close>

text \<open>
  A server that knows every study but \<open>S-BSST2\<close>, has withdrawn its file-list and
  search endpoints, and hands out one token.
\<close>

definition json_reply :: "nat \<Rightarrow> 'a body_value \<Rightarrow> 'a fetch_result" where
  "json_reply st v =
     Responded \<lparr> http_status = st, statusText = [], content_type = Some ''application/json'',
       json = Inr v, text_body = Inr [] \<rparr>"

definition example_file :: "string \<Rightarrow> FileInfo" where
  "example_file n = \<lparr> file_name = n, file_path = n, file_size = None, file_type = None, file_md5 = None \<rparr>"

definition example_study :: StudyDetails where
  "example_study =
     \<lparr> sd_accno = ''S-BSST1'', sd_title = ''A study'', sd_collection = Some ''biostudies'',
       sd_section = Some (Section None None None (Some [example_file ''a.txt''])
         (Some [Section None None None (Some [example_file ''b.txt''])
            (Some [Section None None None (Some [example_file ''c.txt'']) None])])),
       sd_isPublic = Some True \<rparr>"

definition example_net :: network where
  "example_net =
     \<lparr> study_server = (\<lambda>sent req.
          if url req = ''https://www.ebi.ac.uk/biostudies/api/v1/studies/S-BSST2''
          then json_reply 404 (Foreign (Some ''Study not found'') None)
          else json_reply 200 (Shaped example_study)),
       files_server = (\<lambda>sent req. json_reply 404 (Foreign None None)),
       links_server = (\<lambda>sent req. json_reply 200 (Shaped [])),
       search_server = (\<lambda>sent req. json_reply 404 (Foreign None None)),
       auth_server = (\<lambda>sent req. json_reply 200 (Shaped \<lparr> token = ''t0'', expires = None, user = None \<rparr>)) \<rparr>"

text \<open>
  The same server with one fixed answer to every study request, an engine that computes
  the logarithm quotient exactly and accepts 125000 arguments, and a study that carries
  130000 files in its top-level section.
\<close>

definition net_with :: "StudyDetails fetch_result \<Rightarrow> network" where
  "net_with outcome = example_net\<lparr> study_server := (\<lambda>sent req. outcome) \<rparr>"

definition example_engine :: engine where
  "example_engine = \<lparr> log_quotient = (\<lambda>x. log 1024 x), max_arguments = 125000 \<rparr>"

definition big_study :: StudyDetails where
  "big_study =
     \<lparr> sd_accno = ''S-BSST1'', sd_title = ''A big study'', sd_collection = None,
       sd_section = Some (Section None None None (Some (replicate 130000 (example_file ''f''))) None),
       sd_isPublic = None \<rparr>"

definition empty_study :: StudyDetails where
  "empty_study =
     \<lparr> sd_accno = ''S-BSST1'', sd_title = ''An empty study'', sd_collection = None,
       sd_section = Some (Section None None None (Some []) (Some [Section None None None None None])),
       sd_isPublic = None \<rparr>"

section \<open>The accession validator\<close>

lemma char_code_lt: "char_code c < 256"
  unfolding char_code_def by (metis of_char_mod_256 mod_less_divisor zero_less_numeral)

lemma char_code_char_of: "n < 256 \<Longrightarrow> char_code (char_of n) = n"
  unfolding char_code_def by simp

lemma char_of_char_code: "char_of (char_code c) = c"
  unfolding char_code_def by simp

lemma char_code_inj: "(char_code c = char_code d) = (c = d)"
  unfolding char_code_def by simp

lemma code_upper_char:
  "char_code (upper_char c) = (if is_lower c then char_code c - 32 else char_code c)"
  using char_code_lt [of c] by (simp add: upper_char_def is_lower_def char_code_char_of)

lemma set_char_range:
  "set (char_range a b) = {c. char_code a \<le> char_code c \<and> char_code c \<le> char_code b}"
proof (rule set_eqI)
  fix c
  show "c \<in> set (char_range a b) \<longleftrightarrow> c \<in> {c. char_code a \<le> char_code c \<and> char_code c \<le> char_code b}"
  proof
    assume "c \<in> set (char_range a b)"
    then obtain n where n: "char_code a \<le> n" "n \<le> char_code b" "c = char_of n"
      by (auto simp: char_range_def)
    have "n < 256" using n(2) char_code_lt [of b] by simp
    then have "char_code c = n" using n(3) by (simp add: char_code_char_of) 
    then show "c \<in> {c. char_code a \<le> char_code c \<and> char_code c \<le> char_code b}" using n by simp
  next
    assume "c \<in> {c. char_code a \<le> char_code c \<and> char_code c \<le> char_code b}"
    then have "char_code c \<in> set [char_code a ..< Suc (char_code b)]" by auto
    then have "char_of (char_code c) \<in> set (char_range a b)"
      unfolding char_range_def by (simp only: set_map image_eqI)
    then show "c \<in> set (char_range a b)" by (simp add: char_of_char_code)
  qed
qed

lemma atom_match_code:
  "atom_match a c = (\<exists>m \<in> set (members a). char_code (upper_char m) = char_code (upper_char c))"
  by (auto simp: atom_match_def canonicalize_def char_code_inj intro: rev_image_eqI)

lemma atom_match_Lit: "atom_match (Lit x) c = (upper_char c = upper_char x)"
  by (auto simp: atom_match_def canonicalize_def)

lemma cc0: "char_code (CHR ''0'') = 48" "char_code (CHR ''9'') = 57" "char_code (CHR ''A'') = 65" "char_code (CHR ''Z'') = 90"
  "char_code (CHR ''a'') = 97" "char_code (CHR ''z'') = 122" "char_code (CHR ''_'') = 95"
  by (simp_all add: char_code_def)

lemma atom_match_Digit: "atom_match Digit c = is_digit c"
proof
  assume "atom_match Digit c"
  then obtain m where "48 \<le> char_code m" "char_code m \<le> 57" "char_code (upper_char m) = char_code (upper_char c)"
    by (auto simp: atom_match_code set_char_range cc0)
  then show "is_digit c"
    by (auto simp: code_upper_char is_digit_def is_lower_def split: if_splits)
next
  assume "is_digit c"
  then have "c \<in> set (members Digit)" by (simp add: set_char_range cc0 is_digit_def)
  then show "atom_match Digit c" unfolding atom_match_code by blast
qed


lemma atom_match_WordChar: "atom_match WordChar c = is_word c"
proof
  assume "atom_match WordChar c"
  then obtain m where "is_word m" "char_code (upper_char m) = char_code (upper_char c)"
    by (auto simp: atom_match_code set_char_range cc0 is_word_def is_upper_def is_lower_def is_digit_def)
  then show "is_word c"
    by (auto simp: code_upper_char is_word_def is_upper_def is_digit_def is_lower_def cc0 char_code_inj [symmetric] split: if_splits)
next
  assume "is_word c"
  then have "c \<in> set (members WordChar)"
    by (auto simp: set_char_range cc0 is_word_def is_upper_def is_lower_def is_digit_def)
  then show "atom_match WordChar c" unfolding atom_match_code by blast
qed

lemma atom_match_Range: "atom_match (Range (CHR ''A'') (CHR ''Z'')) c = (is_upper c \<or> is_lower c)"
proof
  assume "atom_match (Range (CHR ''A'') (CHR ''Z'')) c"
  then obtain m where "is_upper m" "char_code (upper_char m) = char_code (upper_char c)"
    by (auto simp: atom_match_code set_char_range cc0 is_upper_def)
  then show "is_upper c \<or> is_lower c"
    by (auto simp: code_upper_char is_upper_def is_lower_def split: if_splits)
next
  assume c: "is_upper c \<or> is_lower c"
  show "atom_match (Range (CHR ''A'') (CHR ''Z'')) c"
  proof (cases "is_upper c")
    case True
    then have "c \<in> set (members (Range (CHR ''A'') (CHR ''Z'')))"
      by (simp add: set_char_range cc0 is_upper_def)
    then show ?thesis unfolding atom_match_code by blast
  next
    case False
    with c have l: "is_lower c" by simp
    then have "upper_char c \<in> set (members (Range (CHR ''A'') (CHR ''Z'')))"
      by (auto simp: set_char_range cc0 code_upper_char is_lower_def)
    moreover have "upper_char (upper_char c) = upper_char c"
      using l by (auto simp: char_code_inj [symmetric] code_upper_char is_lower_def)
    ultimately show ?thesis unfolding atom_match_code by metis
  qed
qed

lemma atom_match_OneOf: "atom_match (OneOf cs) c = (upper_char c \<in> set (toUpperCase cs))"
  by (simp add: atom_match_def canonicalize_def toUpperCase_def)



lemma ci_eq_Nil: "ci_eq u [] = (u = [])"
  by (simp add: ci_eq_def toUpperCase_def)

lemma ci_eq_Cons: "ci_eq u (x # p) = (\<exists>c v. u = c # v \<and> upper_char c = upper_char x \<and> ci_eq v p)"
  by (cases u) (auto simp: ci_eq_def toUpperCase_def)

lemma test_lits: "test (lits p @ r) s = (\<exists>u t. s = u @ t \<and> ci_eq u p \<and> test r t)"
proof (induction p arbitrary: s)
  case Nil
  show ?case by (simp add: lits_def ci_eq_Nil)
next
  case (Cons x p)
  have step: "lits (x # p) @ r = (Lit x, Once) # (lits p @ r)" by (simp add: lits_def)
  show ?case
  proof (cases s)
    case Nil
    then show ?thesis by (simp add: step ci_eq_Cons)
  next
    case (Cons c cs)
    show ?thesis
      unfolding step Cons
      by (simp add: atom_match_Lit Cons.IH ci_eq_Cons Cons_eq_append_conv) blast
  qed
qed


lemma test_once: "test ((a, Once) # r) s = (\<exists>c t. s = c # t \<and> atom_match a c \<and> test r t)"
  by (cases s) simp_all

lemma test_plus_end: "test [(a, OneOrMore)] s = (s \<noteq> [] \<and> list_all (atom_match a) s)"
proof (induction s)
  case Nil
  show ?case by simp
next
  case (Cons c cs)
  show ?case
  proof (cases cs)
    case Nil
    then show ?thesis by simp
  next
    case (Cons d ds)
    with Cons.IH show ?thesis by simp
  qed
qed

lemma test_exactly:
  "test ((a, Exactly n) # r) s =
     (\<exists>u t. s = u @ t \<and> length u = n \<and> list_all (atom_match a) u \<and> test r t)"
proof (induction n arbitrary: s)
  case 0
  show ?case by simp
next
  case (Suc n)
  show ?case
  proof (cases s)
    case Nil
    then show ?thesis by simp
  next
    case (Cons c cs)
    show ?thesis
    proof
      assume "test ((a, Exactly (Suc n)) # r) s"
      then have c: "atom_match a c" and "test ((a, Exactly n) # r) cs"
        by (simp_all add: Cons)
      then obtain u t where ut: "cs = u @ t" "length u = n" "list_all (atom_match a) u" "test r t"
        using Suc.IH [of cs] by blast
      have "s = (c # u) @ t \<and> length (c # u) = Suc n \<and> list_all (atom_match a) (c # u) \<and> test r t"
        using c ut by (simp add: Cons)
      then show "\<exists>u t. s = u @ t \<and> length u = Suc n \<and> list_all (atom_match a) u \<and> test r t"
        by blast
    next
      assume "\<exists>u t. s = u @ t \<and> length u = Suc n \<and> list_all (atom_match a) u \<and> test r t"
      then obtain u t where ut: "s = u @ t" "length u = Suc n" "list_all (atom_match a) u" "test r t"
        by blast
      from ut(2) obtain d v where u: "u = d # v" by (cases u) simp_all
      have "d = c" "cs = v @ t" using ut(1) by (simp_all add: u Cons)
      moreover have "length v = n" "list_all (atom_match a) v" "atom_match a d"
        using ut(2,3) by (simp_all add: u)
      ultimately have "atom_match a c" "test ((a, Exactly n) # r) cs"
        using Suc.IH [of cs] ut(4) by blast+
      then show "test ((a, Exactly (Suc n)) # r) s" by (simp add: Cons)
    qed
  qed
qed

lemma test_digits: "test [(Digit, OneOrMore)] s = digits1 s"
  unfolding test_plus_end digits1_def by (simp only: atom_match_Digit [abs_def])

lemma test_word4:
  "test ((WordChar, Exactly 4) # r) s =
     (\<exists>w t. s = w @ t \<and> length w = 4 \<and> list_all is_word w \<and> test r t)"
  unfolding test_exactly by (simp only: atom_match_WordChar [abs_def])

lemma pattern1: "test (lits p @ [(Digit, OneOrMore)]) s = (\<exists>u ds. s = u @ ds \<and> ci_eq u p \<and> digits1 ds)"
  by (simp only: test_lits test_digits)

lemma upper_dash: "(upper_char c = upper_char (CHR ''-'')) = (c = CHR ''-'')"
proof -
  have c45: "char_code (CHR ''-'') = 45" by (simp add: char_code_def)
  have up: "upper_char (CHR ''-'') = CHR ''-''" by (simp add: upper_char_def is_lower_def c45)
  have "(char_code (upper_char c) = char_code (CHR ''-'')) = (char_code c = char_code (CHR ''-''))"
    by (auto simp: code_upper_char is_lower_def c45)
  then show ?thesis unfolding char_code_inj up .
qed

lemma ci_eq_dash: "ci_eq u ''-'' = (u = ''-'')"
  by (auto simp: ci_eq_Cons ci_eq_Nil upper_dash)

lemma pattern2:
  "test (lits ''E-'' @ [(WordChar, Exactly 4)] @ lits ''-'' @ [(Digit, OneOrMore)]) s =
     (\<exists>p w ds. s = p @ w @ ''-'' @ ds \<and> ci_eq p ''E-'' \<and> length w = 4 \<and> list_all is_word w \<and> digits1 ds)"
proof -
  have dash: "test (lits ''-'' @ [(Digit, OneOrMore)]) t = (\<exists>ds. t = ''-'' @ ds \<and> digits1 ds)" for t
    unfolding pattern1 ci_eq_dash by blast
  have "test (lits ''E-'' @ ((WordChar, Exactly 4) # (lits ''-'' @ [(Digit, OneOrMore)]))) s =
     (\<exists>p t. s = p @ t \<and> ci_eq p ''E-'' \<and>
        (\<exists>w t'. t = w @ t' \<and> length w = 4 \<and> list_all is_word w \<and> (\<exists>ds. t' = ''-'' @ ds \<and> digits1 ds)))"
    unfolding test_lits [of "''E-''" "(WordChar, Exactly 4) # (lits ''-'' @ [(Digit, OneOrMore)])" s]
    by (simp only: test_word4 dash)
  also have "\<dots> = (\<exists>p w ds. s = p @ w @ ''-'' @ ds \<and> ci_eq p ''E-'' \<and> length w = 4 \<and> list_all is_word w \<and> digits1 ds)"
    by blast
  finally show ?thesis by (simp only: append_Cons append_Nil)
qed

lemma pattern6:
  "test (lits ''PRJ'' @ [(OneOf ''EDN'', Once), (Range (CHR ''A'') (CHR ''Z''), Once), (Digit, OneOrMore)]) s =
     (\<exists>p x y ds. s = p @ [x, y] @ ds \<and> ci_eq p ''PRJ'' \<and> upper_char x \<in> set ''EDN''
        \<and> (is_upper y \<or> is_lower y) \<and> digits1 ds)"
proof -
  have edn: "toUpperCase ''EDN'' = ''EDN''"
    by (simp add: toUpperCase_def upper_char_def is_lower_def char_code_def)
  have tail: "test [(OneOf ''EDN'', Once), (Range (CHR ''A'') (CHR ''Z''), Once), (Digit, OneOrMore)] t =
      (\<exists>x y ds. t = [x, y] @ ds \<and> upper_char x \<in> set ''EDN'' \<and> (is_upper y \<or> is_lower y) \<and> digits1 ds)" for t
    unfolding test_once test_digits atom_match_OneOf atom_match_Range edn by auto
  show ?thesis
    unfolding test_lits tail by blast
qed

lemma test_patterns:
  "list_ex (\<lambda>pattern. test pattern s) patterns = accession_shape s"
  unfolding patterns_def accession_shape_def list_ex_Cons_iff list_ex_Nil_iff pattern1 pattern2 pattern6
  by (simp only: simp_thms)

lemma accession_shape_Nil: "\<not> accession_shape []"
  by (simp add: accession_shape_def digits1_def)

lemma isValidAccessionNumber_String:
  "isValidAccessionNumber (String s) = accession_shape s"
proof (cases "s = []")
  case True
  then show ?thesis by (simp add: isValidAccessionNumber_def accession_shape_Nil)
next
  case False
  then show ?thesis by (simp add: isValidAccessionNumber_def test_patterns)
qed

lemma digits1_1: "digits1 ''1''"
  by (simp add: digits1_def is_digit_def char_code_def)

lemma valid_S_BSST1: "isValidAccessionNumber (String ''S-BSST1'')"
proof -
  have "''S-BSST1'' = ''S-BSST'' @ ''1'' \<and> ci_eq ''S-BSST'' ''S-BSST'' \<and> digits1 ''1''"
    by (simp add: ci_eq_def digits1_1)
  then have "\<exists>p ds. ''S-BSST1'' = p @ ds \<and> ci_eq p ''S-BSST'' \<and> digits1 ds"
    by (intro exI)
  then have "accession_shape ''S-BSST1''" unfolding accession_shape_def by (rule disjI1)
  then show ?thesis by (simp only: isValidAccessionNumber_String)
qed

lemma ci_eq_length: "ci_eq p q \<Longrightarrow> length p = length q"
  unfolding ci_eq_def toUpperCase_def by (rule map_eq_imp_length_eq)

lemma digits1_length: "digits1 ds \<Longrightarrow> 1 \<le> length ds"
  by (cases ds) (simp_all add: digits1_def)

lemma accession_shape_length: "accession_shape s \<Longrightarrow> 6 \<le> length s"
  unfolding accession_shape_def
  by (elim disjE exE conjE) (use ci_eq_length digits1_length in fastforce)+

lemma invalid_short: "length s < 6 \<Longrightarrow> \<not> isValidAccessionNumber (String s)"
  using accession_shape_length [of s] by (simp only: isValidAccessionNumber_String) arith

text \<open>
  C3. \<open>isValidAccessionNumber\<close> accepts exactly the strings of one of the six
  accession families, spelled in any letter case with nothing before or after; every
  value that is not a string (null and undefined among them) and the empty string are
  rejected. The function is total: no input makes it raise.
\<close>

theorem isValidAccessionNumber_exact:
  "isValidAccessionNumber v = (case v of String s \<Rightarrow> accession_shape s | _ \<Rightarrow> False)
   \<and> \<not> isValidAccessionNumber Null \<and> \<not> isValidAccessionNumber Undefined
   \<and> \<not> isValidAccessionNumber (String [])"
proof -
  have "isValidAccessionNumber v = (case v of String s \<Rightarrow> accession_shape s | _ \<Rightarrow> False)"
    by (cases v) (simp_all add: isValidAccessionNumber_String, simp_all add: isValidAccessionNumber_def)
  moreover have "\<not> isValidAccessionNumber Null" "\<not> isValidAccessionNumber Undefined"
    "\<not> isValidAccessionNumber (String [])"
    by (simp_all add: isValidAccessionNumber_def)
  ultimately show ?thesis by blast
qed

theorem isValidAccessionNumber_exact_witness:
  "isValidAccessionNumber (String ''S-BSST1'') \<and> accession_shape ''S-BSST1''
   \<and> \<not> isValidAccessionNumber Null"
  using isValidAccessionNumber_exact [of "String ''S-BSST1''"] valid_S_BSST1 by simp

section \<open>Evaluating the example environment\<close>

lemma valid_S_BSST: "digits1 ds \<Longrightarrow> isValidAccessionNumber (String (''S-BSST'' @ ds))"
proof -
  assume "digits1 ds"
  then have "''S-BSST'' @ ds = ''S-BSST'' @ ds \<and> ci_eq ''S-BSST'' ''S-BSST'' \<and> digits1 ds"
    by (simp add: ci_eq_def)
  then have "\<exists>p d. ''S-BSST'' @ ds = p @ d \<and> ci_eq p ''S-BSST'' \<and> digits1 d"
    by (intro exI)
  then have "accession_shape (''S-BSST'' @ ds)" unfolding accession_shape_def by (rule disjI1)
  then show ?thesis by (simp only: isValidAccessionNumber_String)
qed

lemma valid_examples:
  "isValidAccessionNumber (String ''S-BSST1'')"
  "isValidAccessionNumber (String ''S-BSST2'')"
  "isValidAccessionNumber (String ''S-BSST3'')"
  using valid_S_BSST [of "''1''"] valid_S_BSST [of "''2''"] valid_S_BSST [of "''3''"]
  by (simp_all add: digits1_def is_digit_def char_code_def)

lemma settle_json_ok:
  "200 \<le> st \<Longrightarrow> st \<le> 299 \<Longrightarrow> settle (json_reply st v) = \<lparr> data = Some v, error = None, status = st \<rparr>"
  by (simp add: settle_def json_reply_def finish_def ok_def)

lemma show_nat_404: "show_nat 404 = ''404''"
  by (simp add: show_nat.simps digit_char_def)

lemma settle_json_404:
  "settle (json_reply 404 (Foreign m e)) =
     \<lparr> data = None, error = or_else (or_else m e) (Some ''HTTP 404''), status = 404 \<rparr>"
  by (simp add: settle_def json_reply_def finish_def ok_def show_nat_404)


lemmas char_eval = char_of_def bit_Suc_0_iff lower_char_def upper_char_def is_upper_def
  is_lower_def char_code_def

section \<open>The client's requests\<close>

lemma makeRequest_get:
  "makeRequest server this sent endpoint [] ''GET'' None =
     (settle (server sent (get_request this endpoint)), sent @ [get_request this endpoint])"
  by (simp add: makeRequest_def get_request_def Let_def)

lemma request_failed_no_data: "data (request_failed e) = None"
  by (cases e) simp_all


lemma settle_error_no_data: "truthy_str (error (settle outcome)) \<Longrightarrow> data (settle outcome) = None"
proof (cases outcome)
  case (Threw e)
  then show ?thesis by (simp add: settle_def request_failed_no_data)
next
  case (Responded r)
  assume "truthy_str (error (settle outcome))"
  then show ?thesis
    by (auto simp add: Responded settle_def finish_def Let_def request_failed_no_data
          split: sum.splits if_splits)
qed

text \<open>
  C5. For an accession that the validator rejects, \<open>getStudyDetails\<close>,
  \<open>getStudyFiles\<close> and \<open>getStudyLinks\<close> return a failure of status 400 with the
  invalid-format message and send nothing; for an accepted accession each of them sends
  exactly one request, to its own endpoint.
\<close>

theorem invalid_accession_short_circuits:
  "(\<not> isValidAccessionNumber (String accno) \<longrightarrow>
      getStudyDetails net this sent accno =
        (\<lparr> data = None, error = Some (''Invalid accession number format: '' @ accno), status = 400 \<rparr>, sent)
    \<and> getStudyFiles net this sent accno =
        (\<lparr> data = None, error = Some (''Invalid accession number format: '' @ accno), status = 400 \<rparr>, sent)
    \<and> getStudyLinks net this sent accno =
        (\<lparr> data = None, error = Some (''Invalid accession number format: '' @ accno), status = 400 \<rparr>, sent))
   \<and> (isValidAccessionNumber (String accno) \<longrightarrow>
      snd (getStudyDetails net this sent accno) = sent @ [get_request this (''/studies/'' @ accno)]
    \<and> snd (getStudyFiles net this sent accno) = sent @ [get_request this (''/studies/'' @ accno @ ''/files'')]
    \<and> snd (getStudyLinks net this sent accno) = sent @ [get_request this (''/studies/'' @ accno @ ''/links'')])"
  by (simp add: getStudyDetails_def getStudyFiles_def getStudyLinks_def invalid_format_def makeRequest_get)

theorem invalid_accession_short_circuits_witness:
  "\<not> isValidAccessionNumber (String ''B'')
   \<and> getStudyDetails example_net new_client [] ''B'' =
        (\<lparr> data = None, error = Some ''Invalid accession number format: B'', status = 400 \<rparr>, [])
   \<and> getStudyFiles example_net new_client [] ''B'' =
        (\<lparr> data = None, error = Some ''Invalid accession number format: B'', status = 400 \<rparr>, [])
   \<and> getStudyLinks example_net new_client [] ''B'' =
        (\<lparr> data = None, error = Some ''Invalid accession number format: B'', status = 400 \<rparr>, [])
   \<and> isValidAccessionNumber (String ''S-BSST1'')
   \<and> snd (getStudyDetails example_net new_client [] ''S-BSST1'') = [get_request new_client ''/studies/S-BSST1'']
   \<and> snd (getStudyFiles example_net new_client [] ''S-BSST1'') = [get_request new_client ''/studies/S-BSST1/files'']
   \<and> snd (getStudyLinks example_net new_client [] ''S-BSST1'') = [get_request new_client ''/studies/S-BSST1/links'']"
  using invalid_accession_short_circuits [of "''B''" example_net new_client "[]"]
    invalid_accession_short_circuits [of "''S-BSST1''" example_net new_client "[]"]
    invalid_short [of "''B''"] valid_S_BSST1
  by simp



text \<open>
  C10. \<open>authenticate\<close> changes nothing of the client but the stored token, and stores
  a token only when the payload of the response carries a non-empty one: after a failed
  response, or one without a token, the stored token is the one from before.
\<close>

theorem authenticate_frame:
  "authenticate net this sent credentials = (result, this', sent') \<Longrightarrow>
     this' = this\<lparr>authToken := authToken this'\<rparr>
     \<and> authToken this' =
          (if truthy_str (token_of (data result)) then token_of (data result) else authToken this)
     \<and> (truthy_str (error result) \<longrightarrow> authToken this' = authToken this)
     \<and> (token_of (data result) = None \<longrightarrow> authToken this' = authToken this)"
proof -
  assume a: "authenticate net this sent credentials = (result, this', sent')"
  show ?thesis
    using a settle_error_no_data [where ?'a = AuthToken]
    by (auto simp add: authenticate_def makeRequest_def Let_def token_of_def split: if_splits)
qed

theorem authenticate_frame_witness:
  "authToken (fst (snd (authenticate example_net new_client [] \<lparr> login = ''u'', password = ''p'' \<rparr>)))
     = Some ''t0''
   \<and> baseUrl (fst (snd (authenticate example_net new_client [] \<lparr> login = ''u'', password = ''p'' \<rparr>)))
     = baseUrl new_client
   \<and> authToken (fst (snd (authenticate (example_net\<lparr> auth_server := \<lambda>sent req. Threw NotAnError \<rparr>)
        new_client [] \<lparr> login = ''u'', password = ''p'' \<rparr>))) = None"
proof -
  let ?c = "\<lparr> login = ''u'', password = ''p'' \<rparr>"
  let ?r = "authenticate example_net new_client [] ?c"
  let ?net = "example_net\<lparr> auth_server := \<lambda>sent req. Threw NotAnError \<rparr>"
  let ?q = "authenticate ?net new_client [] ?c"
  have r: "?r = (fst ?r, fst (snd ?r), snd (snd ?r))" by simp
  have q: "?q = (fst ?q, fst (snd ?q), snd (snd ?q))" by simp
  have tok: "token_of (data (fst ?r)) = Some ''t0''"
    by (simp add: authenticate_def makeRequest_def example_net_def settle_json_ok token_of_def Let_def)
  have err: "truthy_str (error (fst ?q))"
    by (simp add: authenticate_def makeRequest_def example_net_def settle_def Let_def)
  have "authToken (fst (snd ?r)) = Some ''t0''"
    using authenticate_frame [OF r] tok by simp
  moreover have "baseUrl (fst (snd ?r)) = baseUrl new_client"
  proof -
    have "fst (snd ?r) = new_client\<lparr>authToken := authToken (fst (snd ?r))\<rparr>"
      using authenticate_frame [OF r] by blast
    then have "baseUrl (fst (snd ?r)) = baseUrl (new_client\<lparr>authToken := authToken (fst (snd ?r))\<rparr>)"
      by (rule arg_cong)
    then show ?thesis by simp
  qed
  moreover have "authToken (fst (snd ?q)) = None"
  proof -
    have "truthy_str (error (fst ?q)) \<longrightarrow> authToken (fst (snd ?q)) = authToken new_client"
      using authenticate_frame [OF q] by blast
    with err have "authToken (fst (snd ?q)) = authToken new_client" by blast
    then show ?thesis by (simp only: new_client_def client.select_convs)
  qed
  ultimately show ?thesis by blast
qed

section \<open>Batch retrieval\<close>

lemma fill_length:
  "length (foldl (\<lambda>results i. results[i := Some (outs ! i)]) slots completion) = length slots"
  by (induction completion arbitrary: slots) simp_all

lemma fill_nth:
  "j < length slots \<Longrightarrow>
     foldl (\<lambda>results i. results[i := Some (outs ! i)]) slots completion ! j =
       (if j \<in> set completion then Some (outs ! j) else slots ! j)"
proof (induction completion arbitrary: slots)
  case Nil
  show ?case by simp
next
  case (Cons i completion)
  from Cons.prems have "j < length (slots[i := Some (outs ! i)])" by simp
  from Cons.IH [OF this] Cons.prems show ?case
    by (auto simp: nth_list_update)
qed

lemma allSettled_complete:
  assumes "set completion = {0 ..< length outs}"
  shows "allSettled completion outs = Some outs"
proof -
  let ?slots = "foldl (\<lambda>results i. results[i := Some (outs ! i)]) (replicate (length outs) None) completion"
  have len: "length ?slots = length outs" by (simp add: fill_length)
  have "?slots ! j = map Some outs ! j" if "j < length outs" for j
    using that assms fill_nth [of j "replicate (length outs) None" outs completion] by simp
  with len have eq: "?slots = map Some outs" by (simp add: nth_equalityI)
  show ?thesis
    unfolding allSettled_def Let_def eq by (simp add: list_all_iff comp_def)
qed

lemma forEach_result_eq:
  "length results = length rest \<Longrightarrow> list_all (\<lambda>r. fulfilled r \<or> reason r \<noteq> []) results \<Longrightarrow>
     forEach_result (pre @ rest) (length pre) results (s, f) =
       (s @ fulfilled_of rest results, f @ rejected_of rest results)"
proof (induction results arbitrary: pre rest s f)
  case Nil
  then show ?case by (simp add: fulfilled_of_def rejected_of_def)
next
  case (Cons r results)
  then obtain a rest' where rest: "rest = a # rest'" by (cases rest) simp_all
  have len: "length results = length rest'" using Cons.prems(1) rest by simp
  have ok: "list_all (\<lambda>r. fulfilled r \<or> reason r \<noteq> []) results" using Cons.prems(2) by simp
  have step: "forEach_result ((pre @ [a]) @ rest') (length (pre @ [a])) results (s', f') =
       (s' @ fulfilled_of rest' results, f' @ rejected_of rest' results)" for s' f'
    by (rule Cons.IH [OF len ok])
  have nth: "(pre @ a # rest') ! length pre = a" by simp
  show ?case
  proof (cases r)
    case (Fulfilled v)
    show ?thesis
      using step [of "s @ [a]" f]
      by (simp add: rest Fulfilled nth fulfilled_of_def rejected_of_def)
  next
    case (Rejected msg)
    then have "msg \<noteq> []" using Cons.prems(2) by simp
    then show ?thesis
      using step [of s "f @ [\<lparr> f_accno = a, f_error = msg \<rparr>]"]
      by (simp add: rest Rejected nth fulfilled_of_def rejected_of_def)
  qed
qed

lemma start_tasks_Cons:
  "start_tasks net this sent (a # rest) =
     (task_outcome a (fst (getStudyDetails net this sent a))
        # fst (start_tasks net this (snd (getStudyDetails net this sent a)) rest),
      snd (start_tasks net this (snd (getStudyDetails net this sent a)) rest))"
  by (simp add: Let_def split_beta)

lemma start_tasks_length: "length (fst (start_tasks net this sent accs)) = length accs"
  by (induction accs arbitrary: sent) (simp_all add: start_tasks_Cons del: start_tasks.simps(2))

lemma task_outcome_reason: "fulfilled (task_outcome a result) \<or> reason (task_outcome a result) \<noteq> []"
  by (cases "error result") (simp_all add: task_outcome_def)

lemma start_tasks_reasons:
  "list_all (\<lambda>r. fulfilled r \<or> reason r \<noteq> []) (fst (start_tasks net this sent accs))"
  by (induction accs arbitrary: sent)
    (simp_all add: start_tasks_Cons task_outcome_reason del: start_tasks.simps(2))

lemma start_tasks_nth:
  "i < length accs \<Longrightarrow>
     fst (start_tasks net this sent accs) ! i =
       task_outcome (accs ! i)
         (fst (getStudyDetails net this (snd (start_tasks net this sent (take i accs))) (accs ! i)))"
proof (induction accs arbitrary: sent i)
  case Nil
  then show ?case by simp
next
  case (Cons a accs)
  show ?case
  proof (cases i)
    case 0
    then show ?thesis by (simp add: start_tasks_Cons del: start_tasks.simps(2))
  next
    case (Suc k)
    then have "k < length accs" using Cons.prems by simp
    from Cons.IH [OF this] show ?thesis
      by (simp add: Suc start_tasks_Cons del: start_tasks.simps(2))
  qed
qed

lemma partition_accessions:
  "length outs = length accs \<Longrightarrow>
     mset (fulfilled_of accs outs) + mset (map f_accno (rejected_of accs outs)) = mset accs"
proof -
  assume len: "length outs = length accs"
  have "mset (map fst (filter P zs)) + mset (map fst (filter (\<lambda>p. \<not> P p) zs)) = mset (map fst zs)"
    for P and zs :: "(string \<times> string settled) list"
    by (induction zs) simp_all
  from this [of "\<lambda>p. fulfilled (snd p)" "zip accs outs"] len show ?thesis
    by (simp add: fulfilled_of_def rejected_of_def comp_def)
qed

lemma example_batch:
  "fst (start_tasks example_net new_client [] [''S-BSST1'', ''S-BSST2'', ''S-BSST3''])
     = [Fulfilled ''S-BSST1'', Rejected ''Study not found'', Fulfilled ''S-BSST3'']"
  by (simp add: getStudyDetails_def valid_examples makeRequest_def example_net_def new_client_def
        settle_json_ok settle_json_404 task_outcome_def or_else_def Let_def)

text \<open>
  For one to fifty accessions, whatever the order in which the fetches complete,
  \<open>batchGetStudies\<close> returns a success of status 200. Its \<open>successful\<close> list holds
  the accessions whose own fetch returned no truthy error and its \<open>failed\<close> list pairs
  each other accession with the error message of its own fetch, both in input order;
  every input entry is in exactly one of the two lists; \<open>total\<close> is the length of the
  input and the two counts are the lengths of the two lists and add up to \<open>total\<close>.
\<close>

lemma batchGetStudies_reports_every_accession:
  assumes "1 \<le> length accs" "length accs \<le> 50"
    and "mset completion = mset [0 ..< length accs]"
  shows "\<exists>b sent'.
      batchGetStudies net this sent completion accs =
        Some (\<lparr> data = Some (Shaped b), error = None, status = 200 \<rparr>, sent')
    \<and> successful b = fulfilled_of accs (fst (start_tasks net this sent accs))
    \<and> failed b = rejected_of accs (fst (start_tasks net this sent accs))
    \<and> total b = length accs
    \<and> successCount b = length (successful b)
    \<and> failureCount b = length (failed b)
    \<and> successCount b + failureCount b = total b
    \<and> mset (successful b) + mset (map f_accno (failed b)) = mset accs
    \<and> (\<forall>i < length accs.
         fst (start_tasks net this sent accs) ! i =
           task_outcome (accs ! i)
             (fst (getStudyDetails net this (snd (start_tasks net this sent (take i accs))) (accs ! i))))"
proof -
  let ?outs = "fst (start_tasks net this sent accs)"
  have len: "length ?outs = length accs" by (rule start_tasks_length)
  have "set completion = set [0 ..< length accs]" using assms(3) by (rule mset_eq_setD)
  then have settled: "allSettled completion ?outs = Some ?outs"
    by (simp add: allSettled_complete len)
  have loop: "forEach_result accs 0 ?outs ([], []) = (fulfilled_of accs ?outs, rejected_of accs ?outs)"
    using forEach_result_eq [of ?outs accs "[]" "[]" "[]"] len start_tasks_reasons [of net this sent accs]
    by simp
  have part: "mset (fulfilled_of accs ?outs) + mset (map f_accno (rejected_of accs ?outs)) = mset accs"
    using len by (rule partition_accessions)
  have count: "length (fulfilled_of accs ?outs) + length (rejected_of accs ?outs) = length accs"
    using arg_cong [OF part, of size] by simp
  have run: "batchGetStudies net this sent completion accs =
      Some (\<lparr> data = Some (Shaped \<lparr> successful = fulfilled_of accs ?outs, failed = rejected_of accs ?outs,
               total = length accs, successCount = length (fulfilled_of accs ?outs),
               failureCount = length (rejected_of accs ?outs) \<rparr>), error = None, status = 200 \<rparr>,
            snd (start_tasks net this sent accs))"
  proof -
    have "accs \<noteq> []" "\<not> 50 < length accs" using assms(1,2) by auto
    then show ?thesis by (simp add: batchGetStudies_def split_beta settled loop)
  qed
  show ?thesis
    by (intro exI conjI, rule run) (use part count in \<open>simp_all add: start_tasks_nth\<close>)
qed

lemma batchGetStudies_reports_every_accession_example:
  "\<exists>b sent'.
      batchGetStudies example_net new_client [] [2, 0, 1] [''S-BSST1'', ''S-BSST2'', ''S-BSST3''] =
        Some (\<lparr> data = Some (Shaped b), error = None, status = 200 \<rparr>, sent')
    \<and> successful b = [''S-BSST1'', ''S-BSST3'']
    \<and> failed b = [\<lparr> f_accno = ''S-BSST2'', f_error = ''Study not found'' \<rparr>]
    \<and> total b = 3 \<and> successCount b = 2 \<and> failureCount b = 1"
proof -
  have up: "[0 ..< 3] = [0, 1, 2::nat]" by (simp add: upt_rec)
  have perm: "mset [2, 0, 1::nat] = mset [0 ..< length [''S-BSST1'', ''S-BSST2'', ''S-BSST3'']]"
    by (simp add: up)
  have "1 \<le> length [''S-BSST1'', ''S-BSST2'', ''S-BSST3'']"
    "length [''S-BSST1'', ''S-BSST2'', ''S-BSST3''] \<le> 50" by simp_all
  from batchGetStudies_reports_every_accession [OF this perm, of example_net new_client "[]"]
  obtain b sent' where
    "batchGetStudies example_net new_client [] [2, 0, 1] [''S-BSST1'', ''S-BSST2'', ''S-BSST3''] =
        Some (\<lparr> data = Some (Shaped b), error = None, status = 200 \<rparr>, sent')"
    "successful b = fulfilled_of [''S-BSST1'', ''S-BSST2'', ''S-BSST3'']
        (fst (start_tasks example_net new_client [] [''S-BSST1'', ''S-BSST2'', ''S-BSST3'']))"
    "failed b = rejected_of [''S-BSST1'', ''S-BSST2'', ''S-BSST3'']
        (fst (start_tasks example_net new_client [] [''S-BSST1'', ''S-BSST2'', ''S-BSST3'']))"
    "total b = 3" "successCount b = length (successful b)" "failureCount b = length (failed b)"
    by (elim exE conjE) simp
  then show ?thesis
    unfolding example_batch by (intro exI conjI) (simp_all add: fulfilled_of_def rejected_of_def)
qed

lemma request_failed_error: "\<not> empty_message e \<Longrightarrow> truthy_str (error (request_failed e))"
  by (cases e) auto

text \<open>A failed lookup that left a message is reported as a failure, with a message.\<close>

lemma settle_failed_has_error:
  assumes "lookup_failed outcome" "\<not> failed_silently outcome"
  shows "truthy_str (error (settle outcome))"
proof (cases outcome)
  case (Threw e)
  then show ?thesis using assms(2) by (simp add: settle_def request_failed_error)
next
  case (Responded r)
  then have nok: "\<not> ok r" using assms(1) by simp
  have "\<And>e. json r = Inl e \<Longrightarrow>
      str_includes (if truthy_str (content_type r) then the (content_type r) else []) ''application/json'' \<Longrightarrow>
      \<not> empty_message e"
    using assms(2) Responded by (simp add: body_read_error_def)
  then show ?thesis
    using nok
    by (auto simp add: Responded settle_def finish_def Let_def or_else_def request_failed_error
          split: sum.splits)
qed

lemma rejected_when_failed:
  assumes "isValidAccessionNumber (String accno)"
    and "lookup_failed (study_server net sent (get_request this (''/studies/'' @ accno)))"
    and "\<not> failed_silently (study_server net sent (get_request this (''/studies/'' @ accno)))"
  shows "\<not> fulfilled (task_outcome accno (fst (getStudyDetails net this sent accno)))"
  using settle_failed_has_error [OF assms(2,3)] assms(1)
  by (simp add: getStudyDetails_def makeRequest_get task_outcome_def)

text \<open>
  C1, at a fetch that throws an \<open>Error\<close> with an empty message: the lookup has failed,
  yet its result carries the falsy error \<open>''\<close>, the task is fulfilled, and the accession
  is reported in \<open>successful\<close> with an empty \<open>failed\<close> list.
\<close>

theorem batchGetStudies_lists_failed_fetch_as_successful:
  "lookup_failed (study_server (net_with (Threw (Error ''Error'' []))) []
       (get_request new_client ''/studies/S-BSST1''))
   \<and> map_option fst (batchGetStudies (net_with (Threw (Error ''Error'' []))) new_client [] [0] [''S-BSST1''])
     = Some \<lparr> data = Some (Shaped \<lparr> successful = [''S-BSST1''], failed = [], total = 1,
                 successCount = 1, failureCount = 0 \<rparr>), error = None, status = 200 \<rparr>"
  by (simp add: net_with_def batchGetStudies_def getStudyDetails_def valid_S_BSST1 makeRequest_def
        settle_def task_outcome_def allSettled_def Let_def)

section \<open>The handlers\<close>

lemma getStudyFiles_withdrawn:
  "isValidAccessionNumber (String a) \<Longrightarrow>
     getStudyFiles (net_with outcome) new_client sent a =
       (\<lparr> data = None, error = Some ''HTTP 404'', status = 404 \<rparr>,
        sent @ [get_request new_client (''/studies/'' @ a @ ''/files'')])"
  by (simp add: getStudyFiles_def makeRequest_get net_with_def example_net_def settle_json_404 or_else_def)

lemma getStudyDetails_with:
  "isValidAccessionNumber (String a) \<Longrightarrow>
     fst (getStudyDetails (net_with outcome) new_client sent a) = settle outcome"
  by (simp add: getStudyDetails_def makeRequest_get net_with_def)

lemma fallback_with:
  assumes "isValidAccessionNumber (String a)" "a \<noteq> []"
  shows "fst (Handlers_getStudyFiles eng (net_with outcome) new_client [] (Some a)) =
     (let studyResult = settle outcome
      in if truthy_str (error studyResult) then reply (metadata_unavailable a (the (error studyResult)))
         else if \<not> truthy_data (data studyResult) then reply (''Study '' @ a @ '' not found'')
         else (case (case shaped (data studyResult) of Some study \<Rightarrow> extractedFiles eng study | None \<Rightarrow> Inr []) of
                 Inl thrown_message \<Rightarrow> reply (extraction_failed a thrown_message)
               | Inr files \<Rightarrow> if length files = 0 then reply (no_files_in_metadata a)
                              else reply (extracted_listing eng a files)))"
  using assms
  by (simp add: Handlers_getStudyFiles_def getStudyFiles_withdrawn extractFilesFromStudyMetadata_def
        split_beta getStudyDetails_with Let_def split: sum.splits)

lemma big_study_throws:
  "max_arguments eng < 130000 \<Longrightarrow> extractedFiles eng big_study = Inl ''Maximum call stack size exceeded''"
  by (simp add: extractedFiles_def big_study_def push_files_def push_spread_def)

text \<open>
  C4, at a study whose top-level section carries 130000 files, on an engine that accepts
  fewer arguments in one call: collecting the files throws, and the answer is the text
  of the \<open>catch\<close> block instead of the listing of the files.
\<close>

theorem files_fallback_fails_on_long_file_list:
  assumes "max_arguments eng < 130000"
  shows "fst (Handlers_getStudyFiles eng (net_with (json_reply 200 (Shaped big_study))) new_client []
            (Some ''S-BSST1'')) =
     Inr \<lparr> content_text =
         [CHR 0xF0, CHR 0x9F, CHR 0x93, CHR 0x81] @ '' **Files API Unavailable for S-BSST1**''
         @ [CHR 0x0A, CHR 0x0A] @ [CHR 0xE2, CHR 0x9A, CHR 0xA0, CHR 0xEF, CHR 0xB8, CHR 0x8F]
         @ '' The dedicated files API endpoint is currently not available (HTTP 404), ''
         @ ''and an error occurred while trying to extract file information from study metadata.''
         @ [CHR 0x0A, CHR 0x0A] @ ''Error: Maximum call stack size exceeded''
         @ [CHR 0x0A, CHR 0x0A] @ ''**Alternative Approaches:**'' @ [CHR 0x0A]
         @ [CHR 0xE2, CHR 0x80, CHR 0xA2]
         @ '' Visit the study page directly: https://www.ebi.ac.uk/biostudies/studies/S-BSST1''
         @ [CHR 0x0A] @ [CHR 0xE2, CHR 0x80, CHR 0xA2] @ '' Use '' @ [CHR 0x60] @ ''get_study_details''
         @ [CHR 0x60] @ '' to view study metadata directly'',
       isError = False \<rparr>"
proof -
  have "fst (Handlers_getStudyFiles eng (net_with (json_reply 200 (Shaped big_study))) new_client []
            (Some ''S-BSST1'')) = reply (extraction_failed ''S-BSST1'' ''Maximum call stack size exceeded'')"
    using assms
    by (simp add: fallback_with valid_S_BSST1 settle_json_ok big_study_throws)
  then show ?thesis
    by (simp add: reply_def extraction_failed_def folder_def warning_sign_def bullet_def nl_def bt_def)
qed

theorem files_fallback_fails_on_long_file_list_witness:
  "max_arguments example_engine < 130000
   \<and> (\<exists>t. fst (Handlers_getStudyFiles example_engine (net_with (json_reply 200 (Shaped big_study)))
               new_client [] (Some ''S-BSST1'')) = Inr \<lparr> content_text = t, isError = False \<rparr>
        \<and> str_includes t ''Error: Maximum call stack size exceeded'')"
proof -
  have h: "max_arguments example_engine < 130000" by (simp add: example_engine_def)
  show ?thesis
    using h files_fallback_fails_on_long_file_list [OF h] by simp
qed

lemma push_files_within:
  "length (own_files s) \<le> max_arguments eng \<Longrightarrow>
     push_files eng extracted (sec_files s) = Inr (extracted @ own_files s)"
  by (auto simp: push_files_def push_spread_def own_files_def split: option.splits)

lemma push_subsections_within:
  "list_all (\<lambda>s. length (own_files s) \<le> max_arguments eng) subsections \<Longrightarrow>
     push_subsections eng extracted subsections = Inr (extracted @ concat (map own_files subsections))"
  by (induction subsections arbitrary: extracted) (simp_all add: push_files_within)

text \<open>
  Where no file list is longer than the engine's limit, the files collected are those of
  the top-level section followed by those of each direct subsection, and no deeper ones.
\<close>

lemma extractedFiles_one_level:
  assumes "\<And>section. sd_section study = Some section \<Longrightarrow>
      length (own_files section) \<le> max_arguments eng
      \<and> list_all (\<lambda>s. length (own_files s) \<le> max_arguments eng) (direct_subsections section)"
  shows "extractedFiles eng study = Inr (one_level_files (Some (Shaped study)))"
proof (cases "sd_section study")
  case None
  then show ?thesis by (simp add: extractedFiles_def one_level_files_def)
next
  case (Some sec)
  from assms [OF Some] show ?thesis
    by (simp add: extractedFiles_def one_level_files_def Some push_files_within push_subsections_within
          direct_subsections_def split: option.splits)
qed

lemma files_fallback_replies:
  assumes "isValidAccessionNumber (String a)" "a \<noteq> []"
  shows "\<exists>t. fst (Handlers_getStudyFiles eng (net_with outcome) new_client [] (Some a)) = reply t"
  using assms by (auto simp add: fallback_with Let_def split: sum.splits option.splits)

lemma files_fallback_no_files:
  "fst (Handlers_getStudyFiles eng (net_with (json_reply 200 (Shaped empty_study))) new_client []
          (Some ''S-BSST1'')) =
     Inr \<lparr> content_text =
         [CHR 0xF0, CHR 0x9F, CHR 0x93, CHR 0x81] @ '' **Files for S-BSST1 (via metadata extraction)**''
         @ [CHR 0x0A, CHR 0x0A] @ [CHR 0xE2, CHR 0x9A, CHR 0xA0, CHR 0xEF, CHR 0xB8, CHR 0x8F]
         @ '' **Note**: The dedicated files API endpoint is currently unavailable (HTTP 404). ''
         @ ''Extracted file information from study metadata.'' @ [CHR 0x0A, CHR 0x0A]
         @ ''No files found in the study metadata. This could mean:'' @ [CHR 0x0A]
         @ [CHR 0xE2, CHR 0x80, CHR 0xA2] @ '' The study has no associated files'' @ [CHR 0x0A]
         @ [CHR 0xE2, CHR 0x80, CHR 0xA2] @ '' File information is not embedded in the metadata'' @ [CHR 0x0A]
         @ [CHR 0xE2, CHR 0x80, CHR 0xA2] @ '' Files are referenced externally'' @ [CHR 0x0A, CHR 0x0A]
         @ ''**Alternative Approaches:**'' @ [CHR 0x0A]
         @ [CHR 0xE2, CHR 0x80, CHR 0xA2] @ '' Check study details with '' @ [CHR 0x60]
         @ ''get_study_details'' @ [CHR 0x60] @ '' for external references'' @ [CHR 0x0A]
         @ [CHR 0xE2, CHR 0x80, CHR 0xA2]
         @ '' Visit the study page directly: https://www.ebi.ac.uk/biostudies/studies/S-BSST1'',
       isError = False \<rparr>"
proof -
  have "extractedFiles eng empty_study = Inr []"
    by (simp add: extractedFiles_def empty_study_def push_files_def)
  then have "fst (Handlers_getStudyFiles eng (net_with (json_reply 200 (Shaped empty_study))) new_client []
          (Some ''S-BSST1'')) = reply (no_files_in_metadata ''S-BSST1'')"
    by (simp add: fallback_with valid_S_BSST1 settle_json_ok)
  then show ?thesis
    by (simp add: reply_def no_files_in_metadata_def folder_def warning_sign_def bullet_def nl_def bt_def)
qed

lemma files_fallback_unavailable:
  "fst (Handlers_getStudyFiles eng (net_with (Threw (Error ''TypeError'' ''fetch failed''))) new_client []
          (Some ''S-BSST1'')) =
     Inr \<lparr> content_text =
         [CHR 0xF0, CHR 0x9F, CHR 0x93, CHR 0x81] @ '' **Files API Unavailable for S-BSST1**''
         @ [CHR 0x0A, CHR 0x0A] @ [CHR 0xE2, CHR 0x9A, CHR 0xA0, CHR 0xEF, CHR 0xB8, CHR 0x8F]
         @ '' The dedicated files API endpoint is currently not available (HTTP 404), ''
         @ ''and we couldn't retrieve study metadata to extract file information.''
         @ [CHR 0x0A, CHR 0x0A] @ ''Error: fetch failed''
         @ [CHR 0x0A, CHR 0x0A] @ ''**Alternative Approaches:**'' @ [CHR 0x0A]
         @ [CHR 0xE2, CHR 0x80, CHR 0xA2]
         @ '' Visit the study page directly: https://www.ebi.ac.uk/biostudies/studies/S-BSST1''
         @ [CHR 0x0A] @ [CHR 0xE2, CHR 0x80, CHR 0xA2] @ '' Use '' @ [CHR 0x60] @ ''get_study_details''
         @ [CHR 0x60] @ '' to see if file information is embedded in study metadata'',
       isError = False \<rparr>"
proof -
  have "fst (Handlers_getStudyFiles eng (net_with (Threw (Error ''TypeError'' ''fetch failed''))) new_client []
          (Some ''S-BSST1'')) = reply (metadata_unavailable ''S-BSST1'' ''fetch failed'')"
    by (simp add: fallback_with valid_S_BSST1 settle_def)
  then show ?thesis
    by (simp add: reply_def metadata_unavailable_def folder_def warning_sign_def bullet_def nl_def bt_def)
qed

lemma files_fallback_lists_one_level:
  "fst (Handlers_getStudyFiles example_engine (net_with (json_reply 200 (Shaped example_study))) new_client []
          (Some ''S-BSST1'')) =
     reply (extracted_listing example_engine ''S-BSST1'' [example_file ''a.txt'', example_file ''b.txt''])"
proof -
  have "extractedFiles example_engine example_study = Inr [example_file ''a.txt'', example_file ''b.txt'']"
    by (simp add: extractedFiles_def example_study_def push_files_def push_spread_def example_engine_def)
  then show ?thesis
    by (simp add: fallback_with valid_S_BSST1 settle_json_ok)
qed

text \<open>
  C6. A batch of zero or of more than fifty accessions is answered at once: the handler
  returns a fixed advisory text and the client a fixed response, whatever the network
  would answer, and the trace of requests is unchanged.
\<close>

theorem batch_out_of_bounds_rejected:
  assumes "length accs = 0 \<or> 50 < length accs"
  shows "Handlers_batchGetStudies net this sent completion (Some accs) =
      Some (reply (if accs = [] then ''No accession numbers provided''
                   else ''Maximum 50 studies can be processed at once''), sent)
    \<and> batchGetStudies net this sent completion accs =
      Some (if accs = []
            then \<lparr> data = Some (Shaped \<lparr> successful = [], failed = [], total = 0, successCount = 0,
                     failureCount = 0 \<rparr>), error = None, status = 200 \<rparr>
            else \<lparr> data = None, error = Some ''Maximum 50 accessions can be processed at once'',
                   status = 400 \<rparr>, sent)"
  using assms by (auto simp add: Handlers_batchGetStudies_def batchGetStudies_def)

theorem batch_out_of_bounds_rejected_witness:
  "Handlers_batchGetStudies example_net new_client [] [] (Some []) =
      Some (reply ''No accession numbers provided'', [])
   \<and> Handlers_batchGetStudies example_net new_client [] [] (Some (replicate 51 ''S-BSST1'')) =
      Some (reply ''Maximum 50 studies can be processed at once'', [])
   \<and> batchGetStudies example_net new_client [] [] (replicate 51 ''S-BSST1'') =
      Some (\<lparr> data = None, error = Some ''Maximum 50 accessions can be processed at once'',
               status = 400 \<rparr>, [])"
  using batch_out_of_bounds_rejected [of "[]" example_net new_client "[]" "[]"]
    batch_out_of_bounds_rejected [of "replicate 51 ''S-BSST1''" example_net new_client "[]" "[]"]
  by simp

section \<open>Search results and the search fallback\<close>

lemma render_search_text:
  "hits r \<noteq> [] \<Longrightarrow>
     render_search r p =
       reply (''Found '' @ show_int (totalHits r) @ '' studies:'' @ nl @ nl
              @ join (nl @ nl) (map format_hit (hits r)) @ pagination r (hits r) p)"
  by (simp add: render_search_def Let_def)

lemma show_nat_examples:
  "show_nat 1 = ''1''" "show_nat 2 = ''2''" "show_nat 5 = ''5''" "show_nat 20 = ''20''"
  "show_nat 25 = ''25''" "show_nat (Suc 0) = ''1''" "show_nat (Suc (Suc 0)) = ''2''"
  "show_nat 0 = ''0''"
  by (simp_all add: show_nat.simps digit_char_def)

lemma requested_size_default: "requested_size (search_params_of no_args) = 20"
  by (simp add: requested_size_def search_params_of_def no_args_def truthy_num_def or_zero_def)

text \<open>
  C8 as it was stated fails at a negative page index: the index \<open>-1\<close> is not zero, yet
  with 5 of 25 hits on a page of 20 the trailer is the \<open>Showing first\<close> one, because
  the code asks whether the index is greater than zero.
\<close>

theorem pagination_nonzero_page_counterexample:
  "page \<lparr> hits = replicate 5 example_hit, totalHits = 25, page = - 1, size_ = 20 \<rparr> \<noteq> 0
   \<and> pagination \<lparr> hits = replicate 5 example_hit, totalHits = 25, page = - 1, size_ = 20 \<rparr>
        (replicate 5 example_hit) (search_params_of no_args)
      = [CHR 0x0A, CHR 0x0A] @ ''Showing first 5 of 25 total results.''
   \<and> pagination \<lparr> hits = replicate 5 example_hit, totalHits = 25, page = - 1, size_ = 20 \<rparr>
        (replicate 5 example_hit) (search_params_of no_args)
      \<noteq> [CHR 0x0A, CHR 0x0A] @ ''Page 0, showing 5 of 25 total results.''"
  by (simp add: pagination_def search_params_of_def no_args_def truthy_num_def or_zero_def nl_def
        show_int_def show_nat_examples)

text \<open>
  C8, amended. For a page index and a total that are safe integers, the trailer of a
  rendered page of search results, after a blank line, is
  \<open>Page {page+1}, showing X of Y total results.\<close> exactly when the page index is greater
  than zero or the number of hits is at least the requested page size; otherwise it is
  \<open>Showing first X of Y total results.\<close> exactly when fewer hits than \<open>totalHits\<close>
  were returned; otherwise there is no trailer. The trailer ends the text of the page.
\<close>

theorem pagination_trailer_cases:
  assumes "safe_integer (page r)" "safe_integer (totalHits r)"
  shows "(pagination r studies p = nl @ nl @ page_trailer (page r) (length studies) (totalHits r))
      = (0 < page r \<or> requested_size p \<le> int (length studies))
   \<and> (pagination r studies p = nl @ nl @ first_trailer (length studies) (totalHits r))
      = (\<not> (0 < page r \<or> requested_size p \<le> int (length studies)) \<and> int (length studies) < totalHits r)
   \<and> (pagination r studies p = [])
      = (\<not> (0 < page r \<or> requested_size p \<le> int (length studies)) \<and> \<not> int (length studies) < totalHits r)
   \<and> (hits r \<noteq> [] \<longrightarrow>
        render_search r p =
          reply (''Found '' @ show_int (totalHits r) @ '' studies:'' @ nl @ nl
                 @ join (nl @ nl) (map format_hit (hits r)) @ pagination r (hits r) p))"
  by (auto simp add: pagination_def page_trailer_def first_trailer_def requested_size_def nl_def
        render_search_text)

theorem pagination_trailer_cases_witness:
  "pagination \<lparr> hits = replicate 20 example_hit, totalHits = 25, page = 0, size_ = 20 \<rparr>
      (replicate 20 example_hit) (search_params_of no_args)
     = [CHR 0x0A, CHR 0x0A] @ ''Page 1, showing 20 of 25 total results.''
   \<and> pagination \<lparr> hits = replicate 5 example_hit, totalHits = 25, page = 1, size_ = 20 \<rparr>
      (replicate 5 example_hit) (search_params_of no_args)
     = [CHR 0x0A, CHR 0x0A] @ ''Page 2, showing 5 of 25 total results.''
   \<and> pagination \<lparr> hits = replicate 5 example_hit, totalHits = 25, page = 0, size_ = 20 \<rparr>
      (replicate 5 example_hit) (search_params_of no_args)
     = [CHR 0x0A, CHR 0x0A] @ ''Showing first 5 of 25 total results.''
   \<and> pagination \<lparr> hits = replicate 5 example_hit, totalHits = 5, page = 0, size_ = 20 \<rparr>
      (replicate 5 example_hit) (search_params_of no_args)
     = []"
proof -
  let ?p = "search_params_of no_args"
  note sz = requested_size_default
  let ?r1 = "\<lparr> hits = replicate 20 example_hit, totalHits = 25, page = 0, size_ = 20 \<rparr>"
  let ?r2 = "\<lparr> hits = replicate 5 example_hit, totalHits = 25, page = 1, size_ = 20 \<rparr>"
  let ?r3 = "\<lparr> hits = replicate 5 example_hit, totalHits = 25, page = 0, size_ = 20 \<rparr>"
  let ?r4 = "\<lparr> hits = replicate 5 example_hit, totalHits = 5, page = 0, size_ = 20 \<rparr>"
  have s1: "safe_integer (page ?r1)" "safe_integer (totalHits ?r1)"
    and s2: "safe_integer (page ?r2)" "safe_integer (totalHits ?r2)"
    and s3: "safe_integer (page ?r3)" "safe_integer (totalHits ?r3)"
    and s4: "safe_integer (page ?r4)" "safe_integer (totalHits ?r4)"
    by (simp_all add: safe_integer_def)
  have "pagination ?r1 (replicate 20 example_hit) ?p
      = nl @ nl @ page_trailer (page ?r1) (length (replicate 20 example_hit)) (totalHits ?r1)"
    using pagination_trailer_cases [OF s1, of "replicate 20 example_hit" ?p, THEN conjunct1]
    by (simp add: sz)
  then have a: "pagination ?r1 (replicate 20 example_hit) ?p
      = [CHR 0x0A, CHR 0x0A] @ ''Page 1, showing 20 of 25 total results.''"
    by (simp add: page_trailer_def show_int_def show_nat_examples nl_def)
  have "pagination ?r2 (replicate 5 example_hit) ?p
      = nl @ nl @ page_trailer (page ?r2) (length (replicate 5 example_hit)) (totalHits ?r2)"
    using pagination_trailer_cases [OF s2, of "replicate 5 example_hit" ?p, THEN conjunct1]
    by simp
  then have b: "pagination ?r2 (replicate 5 example_hit) ?p
      = [CHR 0x0A, CHR 0x0A] @ ''Page 2, showing 5 of 25 total results.''"
    by (simp add: page_trailer_def show_int_def show_nat_examples nl_def)
  have "pagination ?r3 (replicate 5 example_hit) ?p
      = nl @ nl @ first_trailer (length (replicate 5 example_hit)) (totalHits ?r3)"
    using pagination_trailer_cases [OF s3, of "replicate 5 example_hit" ?p, THEN conjunct2, THEN conjunct1]
    by (simp add: sz)
  then have c: "pagination ?r3 (replicate 5 example_hit) ?p
      = [CHR 0x0A, CHR 0x0A] @ ''Showing first 5 of 25 total results.''"
    by (simp add: first_trailer_def show_int_def show_nat_examples nl_def)
  have d: "pagination ?r4 (replicate 5 example_hit) ?p = []"
    using pagination_trailer_cases [OF s4, of "replicate 5 example_hit" ?p, THEN conjunct2, THEN conjunct2,
        THEN conjunct1]
    by (simp add: sz)
  from a b c d show ?thesis by simp
qed

text \<open>The collection listing decides its trailer the same way and words it differently.\<close>

lemma collection_pagination_cases:
  "(0 < pg \<or> sz \<le> int (length studies) \<longrightarrow>
      collection_pagination pg sz studies r c =
        nl @ nl @ ''Page '' @ show_int (pg + 1) @ '', showing '' @ show_nat (length studies)
          @ '' of '' @ show_int (totalHits r) @ '' total studies in '' @ c @ ''.'')
   \<and> (\<not> (0 < pg \<or> sz \<le> int (length studies)) \<and> int (length studies) < totalHits r \<longrightarrow>
      collection_pagination pg sz studies r c =
        nl @ nl @ ''Showing first '' @ show_nat (length studies) @ '' of ''
          @ show_int (totalHits r) @ '' total studies in '' @ c @ ''.'')
   \<and> (\<not> (0 < pg \<or> sz \<le> int (length studies)) \<and> \<not> int (length studies) < totalHits r \<longrightarrow>
      collection_pagination pg sz studies r c = [])"
  by (simp add: collection_pagination_def)

lemma lower_constructor: "toLowerCase ''constructor'' = ''constructor''"
  by (simp add: toLowerCase_def char_eval)

lemma lower_Constructor: "toLowerCase ''Constructor'' = ''constructor''"
  by (simp add: toLowerCase_def char_eval)

lemma suggestions_constructor: "getCollectionSuggestions ''constructor'' = Function 1"
  by (simp add: getCollectionSuggestions_def suggestions_def object_prototype_def)

lemma example_search_404:
  "searchStudies example_net new_client sent p =
     (\<lparr> data = None, error = Some ''HTTP 404'', status = 404 \<rparr>,
      sent @ [\<lparr> url = ''https://www.ebi.ac.uk/biostudies/api/v1/studies'', query = search_entries p,
                method_name = ''GET'', authorization = None, body = None \<rparr>])"
  by (simp add: searchStudies_def makeRequest_def example_net_def new_client_def settle_json_404
        or_else_def Let_def)

text \<open>
  C2, at the collection filter \<open>constructor\<close>: the lookup in the suggestion table finds
  the function that every object inherits under that name, and the fallback throws
  instead of returning a payload.
\<close>

theorem search_fallback_throws_on_inherited_key:
  "fst (Handlers_searchStudies example_net new_client [] (no_args\<lparr> a_collection := Some ''constructor'' \<rparr>))
     = Inl ''suggestions.forEach is not a function''"
  by (simp add: Handlers_searchStudies_def example_search_404 no_args_def search_params_of_def
        provideSearchAlternatives_def collection_block_def lower_constructor suggestions_constructor
        Let_def)

lemma suggestions_are_arrays:
  "map_of suggestions k \<noteq> Some (Function n)" "map_of suggestions k \<noteq> Some PrototypeObject"
  by (simp_all add: suggestions_def)

lemma provideSearchAlternatives_replies:
  assumes "sp_collection p = Some c" "map_of object_prototype (toLowerCase c) = None"
  shows "\<exists>t. provideSearchAlternatives p = reply t"
  using assms
  by (auto simp add: provideSearchAlternatives_def collection_block_def getCollectionSuggestions_def
        suggestions_are_arrays Let_def reply_def split: option.splits js_member.splits)

lemma known_collection_examples:
  assumes "sp_collection p = Some c" "map_of suggestions (toLowerCase c) = Some (StringArray found)"
    "found \<noteq> []"
  shows "provideSearchAlternatives p =
     reply (search_header @
       ''**Collection-Based Discovery for '' @ dq @ c @ dq @ '':**'' @ nl @
       concat (map (\<lambda>suggestion. ''  '' @ bullet @ '' Try accession: '' @ suggestion @ nl) found) @ nl @
       (if truthy_str (sp_query p) then query_block (the (sp_query p)) else []) @ search_footer)"
proof -
  have "c \<noteq> []" using assms(2) by (auto simp: suggestions_def toLowerCase_def)
  then show ?thesis
    using assms
    by (simp add: provideSearchAlternatives_def collection_block_def getCollectionSuggestions_def Let_def)
qed

section \<open>File sizes\<close>

lemma floor_between: "of_int k \<le> x \<Longrightarrow> x < of_int k + 1 \<Longrightarrow> \<lfloor>x::real\<rfloor> = k"
  by (rule floor_unique)

lemma formatFileSize_zero: "formatFileSize log_q 0 = ''0 B''"
  by (simp add: formatFileSize_def)

lemma show_nat_small:
  "show_nat 1 = ''1''" "show_nat 32 = ''32''" "show_nat (Suc 0) = ''1''"
  by (simp_all add: show_nat.simps digit_char_def)

lemma fixed2_32: "fixed2 32 = ''32''"
  by (simp add: fixed2_def show_nat_small)

lemma fixed2_1: "fixed2 1 = ''1''"
  by (simp add: fixed2_def show_nat_small)

lemma fixed2_3_2: "fixed2 (3 / 2) = ''1.5''"
  by (simp add: fixed2_def show_nat_small digit_char_def)

lemma formatFileSize_at_index:
  assumes "0 < bytes" "of_int k \<le> log_q bytes" "log_q bytes < of_int k + 1"
  shows "formatFileSize log_q bytes =
     fixed2 (bytes / 1024 powr (of_int k)) @ '' '' @
       (if 0 \<le> k \<and> k < 5 then sizes ! nat k else ''undefined'')"
proof -
  have "\<lfloor>log_q bytes\<rfloor> = k" using assms(2,3) by (rule floor_between)
  then show ?thesis using assms(1) by (simp add: formatFileSize_def sizes_def)
qed

lemma formatFileSize_1536:
  assumes "1 \<le> log_q 1536" "log_q 1536 < 2"
  shows "formatFileSize log_q 1536 = ''1.5 KB''"
  using formatFileSize_at_index [of 1536 1 log_q] assms
  by (simp add: fixed2_3_2 sizes_def)

lemma formatFileSize_gigabyte:
  assumes "3 \<le> log_q 1073741824" "log_q 1073741824 < 4"
  shows "formatFileSize log_q 1073741824 = ''1 GB''"
  using formatFileSize_at_index [of 1073741824 3 log_q] assms
  by (simp add: fixed2_1 sizes_def)

text \<open>
  C7, at \<open>2^55\<close> bytes: the exact quotient of the logarithms is 5.5, so any double within
  one half of it gives the index 5, past the last unit, and the text ends in
  \<open>undefined\<close> instead of a unit.
\<close>

theorem formatFileSize_beyond_terabytes:
  assumes "\<bar>log_q (2 ^ 55) - 11 / 2\<bar> < 1 / 2"
  shows "formatFileSize log_q (2 ^ 55) = ''32 undefined''"
proof -
  have "5 \<le> log_q (2 ^ 55)" "log_q (2 ^ 55) < 6" using assms by linarith+
  then have b: "of_int 5 \<le> log_q (2 ^ 55)" "log_q (2 ^ 55) < of_int 5 + 1" by simp_all
  have p: "(0::real) < 2 ^ 55" by simp
  have v: "(2::real) ^ 55 / 1024 powr (of_int 5) = 32" by simp
  show ?thesis
    unfolding formatFileSize_at_index [of "2 ^ 55" 5 log_q, OF p b] v fixed2_32 by simp
qed

lemma exact_quotient: "log 1024 (2 ^ 55) = 11 / 2"
proof -
  have "(1024::real) = 2 ^ 10" by simp
  then have "log 1024 (2 ^ 55) = ln (2 ^ 55) / ln (2 ^ 10 :: real)" by (simp only: log_def)
  also have "\<dots> = (55 * ln 2) / (10 * ln (2::real))" by (simp only: ln_realpow)
  also have "\<dots> = 11 / 2" by simp
  finally show ?thesis .
qed

theorem formatFileSize_beyond_terabytes_witness:
  "\<bar>log_quotient example_engine (2 ^ 55) - 11 / 2\<bar> < 1 / 2
   \<and> formatFileSize (log_quotient example_engine) (2 ^ 55) = ''32 undefined''"
proof -
  have h: "\<bar>log_quotient example_engine (2 ^ 55) - 11 / 2\<bar> < 1 / 2"
    by (simp only: example_engine_def engine.select_convs exact_quotient)
  from h formatFileSize_beyond_terabytes [of "log_quotient example_engine", OF h] show ?thesis
    by (rule conjI)
qed

end
